theory Spec2Isabelle
  imports Complex_Main "HOL-Library.AList"
begin

section \<open>Cell values and the host (types.ts)\<close>

text \<open>
  \<open>RowValue = string | number | boolean | Date | null\<close>. A property read of a key an
  object does not have yields the host's \<open>undefined\<close>, so the value type carries it as
  \<open>VUndefined\<close>; the parser never produces it and no row stores it. A row is created
  as \<open>{}\<close>, so a read of a key the row does not own can also yield a member that the
  row inherits from \<open>Object.prototype\<close>: \<open>VInherited k\<close> is the inherited member of
  name \<open>k\<close> (a function, and for \<open>__proto__\<close> the object \<open>Object.prototype\<close>
  itself); it is \<open>===\<close> to itself only. Cell values that are numbers are the host's
  doubles, modelled as reals without rounding and without the two infinities; \<open>NaN\<close>
  is kept out of the value type (\<open>parseValue\<close> returns a number only when it is not
  \<open>NaN\<close>). A \<open>Date\<close> object is its identity together with its time value: two
  dates are \<open>===\<close> exactly when they are the same object, which is equality of
  \<open>VDate i t\<close>.
\<close>

text \<open>
  The four type names of the source are written with a \<open>T_\<close> before them (\<open>INT\<close> is
  notation of the logic).
\<close>

datatype DataType = T_INT | T_VARCHAR | T_BOOLEAN | T_TIMESTAMP

datatype RowValue =
    VUndefined
  | VNull
  | VNum real
  | VStr string
  | VBool bool
  | VDate nat real
  | VInherited string

text \<open>
  A row is an object: its own keys in insertion order, each key once, and its
  prototype, which is \<open>Object.prototype\<close> until an assignment to \<open>__proto__\<close> makes
  it \<open>null\<close>. The own keys are the entries of an association list. A row whose
  prototype is \<open>null\<close> carries one more entry, under \<open>protoSlot\<close>: the single byte
  255, which is the UTF-8 text of no string, so that no key of the host meets it.
  The host lists own keys that are written as array indices (digits only) before the
  others; column names of that form are outside the model.
\<close>

type_synonym Row = "(string \<times> RowValue) list"

definition protoSlot :: string where
  "protoSlot = [CHR 0xFF]"

definition protoIsNull :: "Row \<Rightarrow> bool" where
  "protoIsNull row = (map_of row protoSlot \<noteq> None)"

text \<open>
  The own properties of \<open>Object.prototype\<close> in the browsers the engine runs in; none
  of them is enumerable. All are functions but \<open>__proto__\<close>, an accessor: read, it
  gives the prototype of the row; assigned \<open>null\<close>, it makes the prototype \<open>null\<close>;
  assigned a number, a string, a boolean or \<open>undefined\<close>, it does nothing. Assigned
  an object it makes that object the prototype: the engine assigns to a key what the
  statement parser gave for it (a number, a string, a boolean or \<open>null\<close>) or what a
  read of the same key gave, so the one object that reaches the accessor is
  \<open>Object.prototype\<close> itself, which changes nothing; a \<open>Date\<close> given for the key
  \<open>__proto__\<close> in a parsed query built by hand is outside the model.
\<close>

definition objectPrototypeNames :: "string list" where
  "objectPrototypeNames =
     [''constructor'', ''__defineGetter__'', ''__defineSetter__'', ''hasOwnProperty'',
      ''__lookupGetter__'', ''__lookupSetter__'', ''isPrototypeOf'', ''propertyIsEnumerable'',
      ''toString'', ''valueOf'', ''__proto__'', ''toLocaleString'']"

definition inherits :: "Row \<Rightarrow> string \<Rightarrow> bool" where
  "inherits row k = (\<not> protoIsNull row \<and> k \<in> set objectPrototypeNames)"

text \<open>
  \<open>row[k]\<close> is \<open>getProp\<close>, \<open>k in row\<close> is \<open>hasProp\<close>, \<open>row[k] = v\<close> is \<open>setProp\<close>
  (an own key keeps its place, a new key goes last). \<open>ownProps\<close> are the entries that
  \<open>for (const key in row)\<close> visits and that \<open>{ ...row }\<close> copies into a new object,
  whose prototype is \<open>Object.prototype\<close> again.
\<close>

definition getProp :: "Row \<Rightarrow> string \<Rightarrow> RowValue" where
  "getProp row k =
     (case map_of row k of
        Some v \<Rightarrow> v
      | None \<Rightarrow> if inherits row k then VInherited k else VUndefined)"

definition hasProp :: "string \<Rightarrow> Row \<Rightarrow> bool" where
  "hasProp k row = (map_of row k \<noteq> None \<or> inherits row k)"

definition setProp :: "string \<Rightarrow> RowValue \<Rightarrow> Row \<Rightarrow> Row" where
  "setProp k v row =
     (if k = ''__proto__'' \<and> map_of row k = None \<and> \<not> protoIsNull row
      then (if v = VNull then row @ [(protoSlot, VNull)] else row)
      else AList.update k v row)"

definition ownProps :: "Row \<Rightarrow> Row" where
  "ownProps row = filter (\<lambda>(k, v). k \<noteq> protoSlot) row"

text \<open>
  What the engine takes from the JavaScript host and does not define itself:
  \<open>Number(s)\<close> (\<open>None\<close> is \<open>NaN\<close>), \<open>String(v)\<close> of a number, of a date and of
  an inherited member,
  \<open>String.prototype.localeCompare\<close>, \<open>new RegExp('^' + p + '$', 'i').test(s)\<close>
  (\<open>None\<close>: the pattern is not a regular expression and the constructor throws), and
  \<open>Array.prototype.sort\<close> with a comparator.
\<close>

record Host =
  hostNumber :: "string \<Rightarrow> real option"
  hostNumString :: "real \<Rightarrow> string"
  hostDateString :: "nat \<Rightarrow> real \<Rightarrow> string"
  hostMemberString :: "string \<Rightarrow> string"
  localeCompare :: "string \<Rightarrow> string \<Rightarrow> real"
  regexTest :: "string \<Rightarrow> string \<Rightarrow> bool option"
  hostSort :: "(Row \<Rightarrow> Row \<Rightarrow> real) \<Rightarrow> Row list \<Rightarrow> Row list"

fun jsString :: "Host \<Rightarrow> RowValue \<Rightarrow> string" where
  "jsString h VUndefined = ''undefined''"
| "jsString h VNull = ''null''"
| "jsString h (VNum n) = hostNumString h n"
| "jsString h (VStr s) = s"
| "jsString h (VBool b) = (if b then ''true'' else ''false'')"
| "jsString h (VDate i t) = hostDateString h i t"
| "jsString h (VInherited k) = hostMemberString h k"

section \<open>The B-tree index (btree.ts)\<close>

definition ORDER :: nat where
  "ORDER = 4"

datatype BTreeNode = BTreeNode (keys: "RowValue list") (rowIndices: "nat list list")
  (children: "BTreeNode list") (isLeaf: bool)

record BTreeIndex =
  columnName :: string
  root :: BTreeNode
  unique :: bool

definition createNode :: "bool \<Rightarrow> BTreeNode" where
  "createNode leaf = BTreeNode [] [] [] leaf"

fun compareValues :: "Host \<Rightarrow> RowValue \<Rightarrow> RowValue \<Rightarrow> real" where
  "compareValues h VNull VNull = 0"
| "compareValues h VNull b = -1"
| "compareValues h a VNull = 1"
| "compareValues h (VNum a) (VNum b) = a - b"
| "compareValues h (VDate i a) (VDate j b) = a - b"
| "compareValues h a b = localeCompare h (jsString h a) (jsString h b)"

definition createBTreeIndex :: "string \<Rightarrow> bool \<Rightarrow> BTreeIndex" where
  "createBTreeIndex c u = \<lparr>columnName = c, root = createNode True, unique = u\<rparr>"

text \<open>\<open>keys[i]\<close>: an array read past the end is \<open>undefined\<close>.\<close>

definition keyAt :: "RowValue list \<Rightarrow> nat \<Rightarrow> RowValue" where
  "keyAt ks i = (if i < length ks then ks ! i else VUndefined)"

text \<open>
  The loop \<open>while (i < node.keys.length && compareValues(value, node.keys[i]) > 0) i++\<close>
  of \<open>searchNode\<close> and \<open>removeFromNode\<close>, from \<open>i = 0\<close>: the result is the final \<open>i\<close>.
\<close>

fun scanUp :: "Host \<Rightarrow> RowValue \<Rightarrow> RowValue list \<Rightarrow> nat" where
  "scanUp h v [] = 0"
| "scanUp h v (k # ks) = (if compareValues h v k > 0 then Suc (scanUp h v ks) else 0)"

text \<open>
  The loop \<open>while (i >= 0 && compareValues(value, node.keys[i]) < 0) i--\<close> of
  \<open>insertNonFull\<close>, from \<open>i = node.keys.length - 1\<close>. The source's \<open>i\<close> reaches \<open>-1\<close>;
  the result here is \<open>i + 1\<close>, a natural number. \<open>scanDownFrom\<close> reads the keys from
  the last one to the first.
\<close>

fun scanDownFrom :: "Host \<Rightarrow> RowValue \<Rightarrow> RowValue list \<Rightarrow> nat" where
  "scanDownFrom h v [] = 0"
| "scanDownFrom h v (k # ks) =
     (if compareValues h v k < 0 then scanDownFrom h v ks else Suc (length ks))"

definition scanDown :: "Host \<Rightarrow> RowValue \<Rightarrow> RowValue list \<Rightarrow> nat" where
  "scanDown h v ks = scanDownFrom h v (rev ks)"

text \<open>
  A node whose \<open>rowIndices\<close> or \<open>children\<close> are shorter than its keys ask for is never
  built by the functions below. On such a node the host raises a \<open>TypeError\<close> (a read
  of a property of \<open>undefined\<close>); the index functions return \<open>None\<close> there, and say
  nothing of what the interrupted call had already written.
\<close>

lemma size_nth_children: "i < length cs \<Longrightarrow> size (cs ! i) < Suc (size_list size cs)"
proof (induction cs arbitrary: i)
  case Nil
  then show ?case by simp
next
  case (Cons c cs)
  show ?case
  proof (cases i)
    case 0
    then show ?thesis by simp
  next
    case (Suc j)
    with Cons.prems have "j < length cs" by simp
    from Cons.IH [OF this] Suc show ?thesis by simp
  qed
qed

function searchNode :: "Host \<Rightarrow> BTreeNode \<Rightarrow> RowValue \<Rightarrow> nat list option" where
  "searchNode h (BTreeNode ks rs cs leaf) v =
     (let i = scanUp h v ks in
      if i < length ks \<and> compareValues h v (keyAt ks i) = 0 then
        (if i < length rs then Some (rs ! i) else None)
      else if leaf then Some []
      else if i < length cs then searchNode h (cs ! i) v
      else None)"
  by pat_completeness auto
termination
  by (relation "measure (\<lambda>(h, node, v). size node)") (auto simp: size_nth_children)

definition searchIndex :: "Host \<Rightarrow> BTreeIndex \<Rightarrow> RowValue \<Rightarrow> nat list option" where
  "searchIndex h index v = searchNode h (root index) v"

text \<open>
  \<open>splitChild(parent, childIndex)\<close> changes the parent and the child in place; the
  model returns the new parent, the cut child at \<open>childIndex\<close> and the new node after
  it. \<open>a.splice(n)\<close> leaves \<open>take n a\<close> in \<open>a\<close> and returns \<open>drop n a\<close>;
  \<open>a.splice(n, 0, x)\<close> puts \<open>x\<close> before position \<open>n\<close>. \<open>pop\<close> on an empty array
  (a child with no key) does not happen: the function is called on full children only.
\<close>

definition mid :: nat where
  "mid = (ORDER - 1) div 2"

definition spliceIn :: "nat \<Rightarrow> 'a \<Rightarrow> 'a list \<Rightarrow> 'a list" where
  "spliceIn n x xs = take n xs @ [x] @ drop n xs"

fun splitChild :: "BTreeNode \<Rightarrow> nat \<Rightarrow> BTreeNode option" where
  "splitChild (BTreeNode pks prs pcs pleaf) childIndex =
     (if childIndex < length pcs then
        (case pcs ! childIndex of BTreeNode ks rs cs leaf \<Rightarrow>
           (let newNode = BTreeNode (drop (mid + 1) ks) (drop (mid + 1) rs)
                            (if leaf then [] else drop (mid + 1) cs) leaf;
                ks1 = take (mid + 1) ks;
                rs1 = take (mid + 1) rs;
                cs1 = (if leaf then cs else take (mid + 1) cs)
            in if ks1 = [] \<or> rs1 = [] then None
               else Some (BTreeNode (spliceIn childIndex (last ks1) pks)
                            (spliceIn childIndex (last rs1) prs)
                            (spliceIn (childIndex + 1) newNode
                               (pcs[childIndex := BTreeNode (butlast ks1) (butlast rs1) cs1 leaf]))
                            pleaf)))
      else None)"

lemma size_list_take_le: "size_list f (take n xs) \<le> size_list f xs"
proof (induction xs arbitrary: n)
  case Nil
  then show ?case by simp
next
  case (Cons x xs)
  show ?case
  proof (cases n)
    case 0
    then show ?thesis by simp
  next
    case (Suc m)
    with Cons.IH [of m] show ?thesis by simp
  qed
qed

lemma size_list_drop_le: "size_list f (drop n xs) \<le> size_list f xs"
proof (induction xs arbitrary: n)
  case Nil
  then show ?case by simp
next
  case (Cons x xs)
  show ?case
  proof (cases n)
    case 0
    then show ?thesis by simp
  next
    case (Suc m)
    with Cons.IH [of m] show ?thesis by simp
  qed
qed

lemma spliceIn_nth_before: "i < n \<Longrightarrow> n \<le> length xs \<Longrightarrow> spliceIn n x xs ! i = xs ! i"
  by (simp add: spliceIn_def nth_append)

lemma spliceIn_nth_at: "n \<le> length xs \<Longrightarrow> spliceIn n x xs ! n = x"
  by (simp add: spliceIn_def nth_append)

lemma splitChild_child_size:
  assumes "splitChild p j = Some p'" and "i = j \<or> i = Suc j"
  shows "size (children p' ! i) < size p"
proof (cases p)
  case (BTreeNode pks prs pcs pleaf)
  from assms(1) BTreeNode have j: "j < length pcs"
    by (auto split: if_splits)
  obtain ks rs cs leaf where c: "pcs ! j = BTreeNode ks rs cs leaf"
    by (cases "pcs ! j") auto
  define child' where "child' = BTreeNode (butlast (take (mid + 1) ks)) (butlast (take (mid + 1) rs))
     (if leaf then cs else take (mid + 1) cs) leaf"
  define newNode where "newNode = BTreeNode (drop (mid + 1) ks) (drop (mid + 1) rs)
     (if leaf then [] else drop (mid + 1) cs) leaf"
  from assms(1) BTreeNode j c have ch: "children p' = spliceIn (j + 1) newNode (pcs[j := child'])"
    by (auto simp: Let_def child'_def newNode_def split: if_splits)
  have s1: "size child' \<le> size (pcs ! j)"
    by (simp add: child'_def c size_list_take_le)
  have s2: "size newNode \<le> size (pcs ! j)"
    by (simp add: newNode_def c size_list_drop_le)
  have s3: "size (pcs ! j) < size p"
    using size_nth_children [OF j] BTreeNode by simp
  from assms(2) show ?thesis
  proof
    assume "i = j"
    then have "children p' ! i = child'"
      using j by (simp add: ch spliceIn_nth_before)
    with s1 s3 show ?thesis by simp
  next
    assume "i = Suc j"
    then have "children p' ! i = newNode"
      using j spliceIn_nth_at [of "j + 1" "pcs[j := child']" newNode] by (simp add: ch)
    with s2 s3 show ?thesis by simp
  qed
qed

function insertNonFull :: "Host \<Rightarrow> BTreeNode \<Rightarrow> RowValue \<Rightarrow> nat \<Rightarrow> BTreeNode option" where
  "insertNonFull h (BTreeNode ks rs cs leaf) v rowIndex =
     (let j = scanDown h v ks in
      if leaf then
        (if 0 < j \<and> compareValues h v (keyAt ks (j - 1)) = 0 then
           (if j - 1 < length rs
            then Some (BTreeNode ks (rs[j - 1 := rs ! (j - 1) @ [rowIndex]]) cs leaf)
            else None)
         else Some (BTreeNode (spliceIn j v ks) (spliceIn j [rowIndex] rs) cs leaf))
      else if j < length cs then
        (if length (keys (cs ! j)) = ORDER - 1 then
           (case splitChild (BTreeNode ks rs cs leaf) j of
              None \<Rightarrow> None
            | Some node' \<Rightarrow>
                (let j' = (if compareValues h v (keyAt (keys node') j) > 0 then j + 1 else j) in
                 (case insertNonFull h (children node' ! j') v rowIndex of
                    None \<Rightarrow> None
                  | Some c \<Rightarrow>
                      Some (BTreeNode (keys node') (rowIndices node')
                              ((children node')[j' := c]) (isLeaf node')))))
         else
           (case insertNonFull h (cs ! j) v rowIndex of
              None \<Rightarrow> None
            | Some c \<Rightarrow> Some (BTreeNode ks rs (cs[j := c]) leaf)))
      else None)"
  by pat_completeness auto
termination
proof (relation "measure (\<lambda>(h, node, v, r). size node)", goal_cases)
  case 1
  then show ?case by simp
next
  case (2 h ks rs cs leaf v rowIndex j node' j')
  then show ?case
    using splitChild_child_size [of "BTreeNode ks rs cs leaf" j node' j'] by (auto split: if_splits)
next
  case (3 h ks rs cs leaf v rowIndex j)
  then show ?case using size_nth_children [of j cs] by simp
qed


function removeFromNode :: "Host \<Rightarrow> BTreeNode \<Rightarrow> RowValue \<Rightarrow> nat \<Rightarrow> BTreeNode option" where
  "removeFromNode h (BTreeNode ks rs cs leaf) v rowIndex =
     (let i = scanUp h v ks in
      if i < length ks \<and> compareValues h v (keyAt ks i) = 0 then
        (if i < length rs then
           (let posting = remove1 rowIndex (rs ! i) in
            if posting = []
            then Some (BTreeNode (take i ks @ drop (i + 1) ks) (take i rs @ drop (i + 1) rs) cs leaf)
            else Some (BTreeNode ks (rs[i := posting]) cs leaf))
         else None)
      else if \<not> leaf then
        (if i < length cs then
           (case removeFromNode h (cs ! i) v rowIndex of
              None \<Rightarrow> None
            | Some c \<Rightarrow> Some (BTreeNode ks rs (cs[i := c]) leaf))
         else None)
      else Some (BTreeNode ks rs cs leaf))"
  by pat_completeness auto
termination
  by (relation "measure (\<lambda>(h, node, v, r). size node)") (auto simp: size_nth_children)

text \<open>
  \<open>insertIntoIndex\<close> returns the boolean of the source together with the index as the
  call leaves it; \<open>False\<close> is the uniqueness violation, and the index is then unchanged.
\<close>

definition insertAtRoot :: "Host \<Rightarrow> BTreeIndex \<Rightarrow> RowValue \<Rightarrow> nat \<Rightarrow> (bool \<times> BTreeIndex) option" where
  "insertAtRoot h index v rowIndex =
     (if length (keys (root index)) = ORDER - 1 then
        (case splitChild (BTreeNode [] [] [root index] False) 0 of
           None \<Rightarrow> None
         | Some newRoot \<Rightarrow>
             (case insertNonFull h newRoot v rowIndex of
                None \<Rightarrow> None
              | Some r \<Rightarrow> Some (True, index\<lparr>root := r\<rparr>)))
      else
        (case insertNonFull h (root index) v rowIndex of
           None \<Rightarrow> None
         | Some r \<Rightarrow> Some (True, index\<lparr>root := r\<rparr>)))"

definition insertIntoIndex :: "Host \<Rightarrow> BTreeIndex \<Rightarrow> RowValue \<Rightarrow> nat \<Rightarrow> (bool \<times> BTreeIndex) option" where
  "insertIntoIndex h index v rowIndex =
     (if unique index then
        (case searchIndex h index v of
           None \<Rightarrow> None
         | Some existing \<Rightarrow>
             if length existing > 0 then Some (False, index)
             else insertAtRoot h index v rowIndex)
      else insertAtRoot h index v rowIndex)"

definition removeFromIndex :: "Host \<Rightarrow> BTreeIndex \<Rightarrow> RowValue \<Rightarrow> nat \<Rightarrow> BTreeIndex option" where
  "removeFromIndex h index v rowIndex =
     (case removeFromNode h (root index) v rowIndex of
        None \<Rightarrow> None
      | Some r \<Rightarrow> Some (index\<lparr>root := r\<rparr>))"

text \<open>\<open>rebuildIndex\<close> drops the boolean of every \<open>insertIntoIndex\<close>.\<close>

fun reinsertAll :: "Host \<Rightarrow> BTreeIndex \<Rightarrow> (RowValue \<times> nat) list \<Rightarrow> BTreeIndex option" where
  "reinsertAll h index [] = Some index"
| "reinsertAll h index ((v, rowIndex) # rest) =
     (case insertIntoIndex h index v rowIndex of
        None \<Rightarrow> None
      | Some (ok, index') \<Rightarrow> reinsertAll h index' rest)"

definition rebuildIndex :: "Host \<Rightarrow> BTreeIndex \<Rightarrow> (RowValue \<times> nat) list \<Rightarrow> BTreeIndex option" where
  "rebuildIndex h index pairs = reinsertAll h (index\<lparr>root := createNode True\<rparr>) pairs"


section \<open>Schemas, tables and parsed queries (types.ts)\<close>

text \<open>
  The optional flags of a column definition are booleans (an absent flag is falsy).
  Fields that several interfaces of the source share by name carry the interface in
  their name here: \<open>colType\<close>, \<open>queryType\<close> and \<open>joinType\<close> are the three \<open>type\<close>
  fields, \<open>uniqueFlag\<close> is \<open>ColumnDefinition.unique\<close>, \<open>schemaName\<close> and
  \<open>schemaPrimaryKey\<close> are the schema's \<open>name\<close> and \<open>primaryKey\<close>.
\<close>

record ColumnDefinition =
  name :: string
  colType :: DataType
  primaryKey :: bool
  uniqueFlag :: bool
  notNull :: bool
  maxLength :: "nat option"

record TableSchema =
  schemaName :: string
  columns :: "ColumnDefinition list"
  schemaPrimaryKey :: "string option"
  uniqueKeys :: "string list"

record Table =
  schema :: TableSchema
  rows :: "Row list"
  indexes :: "(string \<times> BTreeIndex) list"
  autoIncrement :: nat

datatype Operator = OpEq | OpNe | OpLt | OpGt | OpLe | OpGe | OpLike

datatype LogicalOp = AND | OR

record Condition =
  column :: string
  operator :: Operator
  condValue :: RowValue
  logicalOp :: "LogicalOp option"

datatype JoinType = INNER | LEFT | RIGHT

record JoinClause =
  joinType :: JoinType
  joinTableName :: string
  joinAlias :: "string option"
  leftColumn :: string
  rightColumn :: string

datatype Direction = ASC | DESC

record OrderByClause =
  orderColumn :: string
  direction :: Direction

datatype QueryType = CREATE | INSERT | SELECT | UPDATE | DELETE | DROP

datatype Columns = ColumnDefs "ColumnDefinition list" | ColumnNames "string list"

record ParsedQuery =
  queryType :: QueryType
  tableName :: string
  queryColumns :: "Columns option"
  queryValues :: "RowValue list option"
  conditions :: "Condition list option"
  updates :: "Row option"
  joins :: "JoinClause list option"
  orderBy :: "OrderByClause option"
  limit :: "nat option"

text \<open>
  Errors are values. \<open>HostError\<close> stands for an exception of the host that \<open>execute\<close>
  catches: a \<open>TypeError\<close> on a field the statement kind needs and the query lacks, or
  the \<open>SyntaxError\<close> of \<open>new RegExp\<close>. The last three are thrown by the parser:
  \<open>Invalid SELECT syntax\<close>, \<open>Invalid SELECT syntax: missing table name\<close> and
  \<open>Invalid condition:\<close> followed by the text of the condition.
\<close>

datatype Error =
    TableExists string
  | NoSuchTable string
  | ColumnCountMismatch
  | NoSuchColumn string
  | InvalidType string
  | CannotBeNull string
  | DuplicateValue string
  | HostError
  | InvalidSelect
  | MissingTableName
  | InvalidCondition string

datatype Message =
    TableCreated string nat
  | RowInserted
  | RowsUpdated nat
  | RowsDeleted nat
  | TableDropped string

record QueryResult =
  success :: bool
  data :: "Row list option"
  message :: "Message option"
  affectedRows :: "nat option"
  error :: "Error option"

definition failure :: "Error \<Rightarrow> QueryResult" where
  "failure e = \<lparr>success = False, data = None, message = None, affectedRows = None, error = Some e\<rparr>"

definition done_with :: "Message \<Rightarrow> nat \<Rightarrow> QueryResult" where
  "done_with m n = \<lparr>success = True, data = None, message = Some m, affectedRows = Some n, error = None\<rparr>"

definition selected :: "Row list \<Rightarrow> QueryResult" where
  "selected rs = \<lparr>success = True, data = Some rs, message = None, affectedRows = Some (length rs), error = None\<rparr>"

record RDBMSEngine =
  tables :: "(string \<times> Table) list"

section \<open>Conditions (engine.ts: evaluateCondition, evaluateConditions)\<close>

text \<open>
  The host's relational comparison \<open>a < b\<close>: both operands are made primitive (a date
  gives its time value, an inherited member the string the host prints it as); two
  strings compare by code units; otherwise both are made
  numbers (\<open>null\<close> is 0, \<open>true\<close> is 1, \<open>undefined\<close> and an unreadable string are
  \<open>NaN\<close>), and a comparison with \<open>NaN\<close> is false. \<open>a > b\<close> is \<open>b < a\<close>;
  \<open>a <= b\<close> is false with \<open>NaN\<close> and otherwise the negation of \<open>b < a\<close>.
\<close>

datatype Prim = PStr string | PNum real | PNaN

fun toPrimitive :: "Host \<Rightarrow> RowValue \<Rightarrow> Prim" where
  "toPrimitive h VUndefined = PNaN"
| "toPrimitive h VNull = PNum 0"
| "toPrimitive h (VNum n) = PNum n"
| "toPrimitive h (VStr s) = PStr s"
| "toPrimitive h (VBool b) = PNum (if b then 1 else 0)"
| "toPrimitive h (VDate i t) = PNum t"
| "toPrimitive h (VInherited k) = PStr (hostMemberString h k)"

fun primNumber :: "Host \<Rightarrow> Prim \<Rightarrow> real option" where
  "primNumber h (PStr s) = hostNumber h s"
| "primNumber h (PNum n) = Some n"
| "primNumber h PNaN = None"

fun strLess :: "string \<Rightarrow> string \<Rightarrow> bool" where
  "strLess [] [] = False"
| "strLess [] (y # ys) = True"
| "strLess (x # xs) [] = False"
| "strLess (x # xs) (y # ys) =
     ((of_char x :: nat) < of_char y \<or> (x = y \<and> strLess xs ys))"

fun primLess :: "Host \<Rightarrow> Prim \<Rightarrow> Prim \<Rightarrow> bool" where
  "primLess h (PStr s) (PStr t) = strLess s t"
| "primLess h x y =
     (case primNumber h x of
        None \<Rightarrow> False
      | Some m \<Rightarrow> (case primNumber h y of None \<Rightarrow> False | Some n \<Rightarrow> m < n))"

fun primLessEq :: "Host \<Rightarrow> Prim \<Rightarrow> Prim \<Rightarrow> bool" where
  "primLessEq h (PStr s) (PStr t) = (\<not> strLess t s)"
| "primLessEq h x y =
     (case primNumber h x of
        None \<Rightarrow> False
      | Some m \<Rightarrow> (case primNumber h y of None \<Rightarrow> False | Some n \<Rightarrow> m \<le> n))"

definition jsLess :: "Host \<Rightarrow> RowValue \<Rightarrow> RowValue \<Rightarrow> bool" where
  "jsLess h a b = primLess h (toPrimitive h a) (toPrimitive h b)"

definition jsLessEq :: "Host \<Rightarrow> RowValue \<Rightarrow> RowValue \<Rightarrow> bool" where
  "jsLessEq h a b = primLessEq h (toPrimitive h a) (toPrimitive h b)"

text \<open>\<open>compareValue.replace(/%/g, '.*').replace(/_/g, '.')\<close>\<close>

definition likePattern :: "string \<Rightarrow> string" where
  "likePattern p =
     concat (map (\<lambda>c. if c = CHR ''%'' then ''.*'' else if c = CHR ''_'' then ''.'' else [c]) p)"

definition evaluateCondition :: "Host \<Rightarrow> Row \<Rightarrow> Condition \<Rightarrow> Error + bool" where
  "evaluateCondition h row c =
     (let v = getProp row (column c); compareValue = condValue c in
      case operator c of
        OpEq \<Rightarrow> Inr (v = compareValue)
      | OpNe \<Rightarrow> Inr (v \<noteq> compareValue)
      | OpLt \<Rightarrow> Inr (v \<noteq> VNull \<and> compareValue \<noteq> VNull \<and> jsLess h v compareValue)
      | OpGt \<Rightarrow> Inr (v \<noteq> VNull \<and> compareValue \<noteq> VNull \<and> jsLess h compareValue v)
      | OpLe \<Rightarrow> Inr (v \<noteq> VNull \<and> compareValue \<noteq> VNull \<and> jsLessEq h v compareValue)
      | OpGe \<Rightarrow> Inr (v \<noteq> VNull \<and> compareValue \<noteq> VNull \<and> jsLessEq h compareValue v)
      | OpLike \<Rightarrow>
          (case v of
             VStr s \<Rightarrow>
               (case compareValue of
                  VStr p \<Rightarrow>
                    (case regexTest h (''^'' @ likePattern p @ ''$'') s of
                       None \<Rightarrow> Inl HostError
                     | Some b \<Rightarrow> Inr b)
                | _ \<Rightarrow> Inr False)
           | _ \<Rightarrow> Inr False))"

text \<open>
  The loop of \<open>evaluateConditions\<close> from \<open>i = 1\<close>: \<open>result\<close> so far, the condition
  before position \<open>i\<close> (whose \<open>logicalOp\<close>, \<open>AND\<close> when absent, joins it to the next),
  and the conditions from \<open>i\<close> on. Every condition is evaluated, whatever \<open>result\<close> is.
\<close>

fun evaluateRest :: "Host \<Rightarrow> Row \<Rightarrow> bool \<Rightarrow> Condition \<Rightarrow> Condition list \<Rightarrow> Error + bool" where
  "evaluateRest h row result prev [] = Inr result"
| "evaluateRest h row result prev (c # cs) =
     (let prevOp = (case logicalOp prev of None \<Rightarrow> AND | Some op \<Rightarrow> op) in
      case evaluateCondition h row c of
        Inl e \<Rightarrow> Inl e
      | Inr condResult \<Rightarrow>
          evaluateRest h row
            (if prevOp = AND then result \<and> condResult else result \<or> condResult) c cs)"

fun evaluateConditions :: "Host \<Rightarrow> Row \<Rightarrow> Condition list \<Rightarrow> Error + bool" where
  "evaluateConditions h row [] = Inr True"
| "evaluateConditions h row (c # cs) =
     (case evaluateCondition h row c of
        Inl e \<Rightarrow> Inl e
      | Inr result \<Rightarrow> evaluateRest h row result c cs)"


section \<open>The read path (engine.ts: executeJoins, filterRows, sortRows, select)\<close>

text \<open>
  The first row sequence of \<open>executeJoins\<close>: every key of a base row under
  \<open>table.key\<close> and under \<open>key\<close>.
\<close>

definition prefixedRow :: "string \<Rightarrow> Row \<Rightarrow> Row" where
  "prefixedRow tname row =
     fold (\<lambda>(k, v) acc. setProp k v (setProp (tname @ ''.'' @ k) v acc)) (ownProps row) []"

text \<open>
  The row of a matching pair: \<open>{ ...leftRow }\<close>, then every key of the right row under
  \<open>joined.key\<close>, and under \<open>key\<close> when the combined row has no such key yet.
\<close>

definition combineRows :: "string \<Rightarrow> Row \<Rightarrow> Row \<Rightarrow> Row" where
  "combineRows jname leftRow rightRow =
     fold (\<lambda>(k, v) acc.
             (let acc1 = setProp (jname @ ''.'' @ k) v acc in
              if \<not> hasProp k acc1 then setProp k v acc1 else acc1))
          (ownProps rightRow) (ownProps leftRow)"

definition nullRow :: "string \<Rightarrow> ColumnDefinition list \<Rightarrow> Row \<Rightarrow> Row" where
  "nullRow jname cols leftRow =
     fold (\<lambda>col acc. setProp (jname @ ''.'' @ name col) VNull acc) cols (ownProps leftRow)"

text \<open>\<open>s.split('.').pop()\<close>: what follows the last dot, the whole string without one.\<close>

definition lastSegment :: "string \<Rightarrow> string" where
  "lastSegment s = rev (takeWhile (\<lambda>c. c \<noteq> CHR ''.'') (rev s))"

text \<open>
  The inner loop of a join, over the rows of the joined table, for one left row: the
  flag \<open>matched\<close> and the rows pushed, in the order of the right rows. The test is the
  host's \<open>===\<close>, equality of values here.
\<close>

fun rightLoop :: "JoinClause \<Rightarrow> Row \<Rightarrow> Row list \<Rightarrow> bool \<times> Row list" where
  "rightLoop join leftRow [] = (False, [])"
| "rightLoop join leftRow (rightRow # rest) =
     (let leftValue = getProp leftRow (leftColumn join);
          rightCol = lastSegment (rightColumn join);
          rightValue = getProp rightRow rightCol
      in case rightLoop join leftRow rest of
           (matched, pushed) \<Rightarrow>
             if leftValue = rightValue
             then (True, combineRows (joinTableName join) leftRow rightRow # pushed)
             else (matched, pushed))"

definition joinLeftRow :: "JoinClause \<Rightarrow> Table \<Rightarrow> Row \<Rightarrow> Row list" where
  "joinLeftRow join joinTable leftRow =
     (case rightLoop join leftRow (rows joinTable) of
        (matched, pushed) \<Rightarrow>
          if \<not> matched \<and> joinType join = LEFT
          then pushed @ [nullRow (joinTableName join) (columns (schema joinTable)) leftRow]
          else pushed)"

fun joinLoop :: "(string \<times> Table) list \<Rightarrow> Row list \<Rightarrow> JoinClause list \<Rightarrow> Error + Row list" where
  "joinLoop tbls result [] = Inr result"
| "joinLoop tbls result (join # rest) =
     (case map_of tbls (joinTableName join) of
        None \<Rightarrow> Inl (NoSuchTable (joinTableName join))
      | Some joinTable \<Rightarrow>
          joinLoop tbls (concat (map (joinLeftRow join joinTable) result)) rest)"

definition executeJoins :: "RDBMSEngine \<Rightarrow> Table \<Rightarrow> JoinClause list \<Rightarrow> Error + Row list" where
  "executeJoins eng table js =
     joinLoop (tables eng) (map (prefixedRow (schemaName (schema table))) (rows table)) js"

text \<open>
  \<open>rows.filter(row => this.evaluateConditions(row, conditions))\<close>; an exception of one
  evaluation ends the whole filter.
\<close>

fun filterByConditions :: "Host \<Rightarrow> Condition list \<Rightarrow> Row list \<Rightarrow> Error + Row list" where
  "filterByConditions h conds [] = Inr []"
| "filterByConditions h conds (row # rest) =
     (case evaluateConditions h row conds of
        Inl e \<Rightarrow> Inl e
      | Inr keep \<Rightarrow>
          (case filterByConditions h conds rest of
             Inl e \<Rightarrow> Inl e
           | Inr kept \<Rightarrow> Inr (if keep then row # kept else kept)))"

text \<open>
  \<open>rowIndices.map(i => table.rows[i]).filter(Boolean)\<close>: a position past the end of the
  row vector gives \<open>undefined\<close>, which the filter drops.
\<close>

definition rowsAt :: "Row list \<Rightarrow> nat list \<Rightarrow> Row list" where
  "rowsAt rs rowIdxs = map (\<lambda>i. rs ! i) (filter (\<lambda>i. i < length rs) rowIdxs)"

definition filterRows :: "Host \<Rightarrow> Row list \<Rightarrow> Condition list \<Rightarrow> Table \<Rightarrow> Error + Row list" where
  "filterRows h rs conds table =
     (case find (\<lambda>c. operator c = OpEq) conds of
        None \<Rightarrow> filterByConditions h conds rs
      | Some firstEqCondition \<Rightarrow>
          (case map_of (indexes table) (column firstEqCondition) of
             None \<Rightarrow> filterByConditions h conds rs
           | Some index \<Rightarrow>
               (case searchIndex h index (condValue firstEqCondition) of
                  None \<Rightarrow> Inl HostError
                | Some rowIdxs \<Rightarrow>
                    filterByConditions h conds
                      (if length rowIdxs > 0 then rowsAt (rows table) rowIdxs else rs))))"

definition sortCompare :: "Host \<Rightarrow> OrderByClause \<Rightarrow> Row \<Rightarrow> Row \<Rightarrow> real" where
  "sortCompare h ob a b =
     (let aVal = getProp a (orderColumn ob); bVal = getProp b (orderColumn ob) in
      if aVal = VNull \<and> bVal = VNull then 0
      else if aVal = VNull then (if direction ob = ASC then -1 else 1)
      else if bVal = VNull then (if direction ob = ASC then 1 else -1)
      else
        (let comparison =
               (case (aVal, bVal) of
                  (VNum x, VNum y) \<Rightarrow> x - y
                | _ \<Rightarrow> localeCompare h (jsString h aVal) (jsString h bVal))
         in if direction ob = ASC then comparison else - comparison))"

definition sortRows :: "Host \<Rightarrow> Row list \<Rightarrow> OrderByClause \<Rightarrow> Row list" where
  "sortRows h rs ob = hostSort h (sortCompare h ob) rs"

definition projectRow :: "string list \<Rightarrow> Row \<Rightarrow> Row" where
  "projectRow cols row =
     fold (\<lambda>col newRow. if hasProp col row then setProp col (getProp row col) newRow else newRow)
       cols []"

definition select :: "Host \<Rightarrow> RDBMSEngine \<Rightarrow> ParsedQuery \<Rightarrow> QueryResult" where
  "select h eng parsed =
     (case map_of (tables eng) (tableName parsed) of
        None \<Rightarrow> failure (NoSuchTable (tableName parsed))
      | Some table \<Rightarrow>
          (case (case joins parsed of
                   None \<Rightarrow> Inr (rows table)
                 | Some js \<Rightarrow> if length js > 0 then executeJoins eng table js else Inr (rows table)) of
             Inl e \<Rightarrow> failure e
           | Inr joined \<Rightarrow>
               (case (case conditions parsed of
                        None \<Rightarrow> Inr joined
                      | Some conds \<Rightarrow> filterRows h joined conds table) of
                  Inl e \<Rightarrow> failure e
                | Inr filtered \<Rightarrow>
                    (let sorted = (case orderBy parsed of
                                     None \<Rightarrow> filtered
                                   | Some ob \<Rightarrow> sortRows h filtered ob);
                         limited = (case limit parsed of
                                      None \<Rightarrow> sorted
                                    | Some n \<Rightarrow> take n sorted)
                     in case queryColumns parsed of
                          Some (ColumnNames cols) \<Rightarrow>
                            (if cols \<noteq> [] \<and> hd cols = ''*''
                             then selected limited
                             else selected (map (projectRow cols) limited))
                        | _ \<Rightarrow> failure HostError))))"


section \<open>The write path (engine.ts: createTable, insert, update, delete, dropTable)\<close>

text \<open>
  The engine changes a table in place; every function here returns the table (or the
  engine) as the call leaves it, together with the result, also when the result is a
  failure.
\<close>

definition createTable :: "RDBMSEngine \<Rightarrow> ParsedQuery \<Rightarrow> RDBMSEngine \<times> QueryResult" where
  "createTable eng parsed =
     (if map_of (tables eng) (tableName parsed) \<noteq> None
      then (eng, failure (TableExists (tableName parsed)))
      else
        (case queryColumns parsed of
           Some (ColumnDefs cols) \<Rightarrow>
             (let pk = map_option name (find primaryKey cols);
                  uks = map name (filter (\<lambda>c. uniqueFlag c \<or> primaryKey c) cols);
                  sch = \<lparr>schemaName = tableName parsed, columns = cols,
                           schemaPrimaryKey = pk, uniqueKeys = uks\<rparr>;
                  table = \<lparr>schema = sch, rows = [],
                             indexes = fold (\<lambda>k ixs. AList.update k (createBTreeIndex k True) ixs) uks [],
                             autoIncrement = 1\<rparr>
              in (eng\<lparr>tables := AList.update (tableName parsed) table (tables eng)\<rparr>,
                  done_with (TableCreated (tableName parsed) (length cols)) 0))
         | _ \<Rightarrow> (eng, failure HostError)))"

definition isInteger :: "real \<Rightarrow> bool" where
  "isInteger x = (of_int \<lfloor>x\<rfloor> = x)"

text \<open>\<open>colDef.maxLength && value.length > colDef.maxLength\<close>: a length of 0 is falsy.\<close>

definition validateType :: "RowValue \<Rightarrow> ColumnDefinition \<Rightarrow> bool" where
  "validateType v colDef =
     (if v = VNull then True
      else
        (case colType colDef of
           T_INT \<Rightarrow> (case v of VNum n \<Rightarrow> isInteger n | _ \<Rightarrow> False)
         | T_VARCHAR \<Rightarrow>
             (case v of
                VStr s \<Rightarrow>
                  (case maxLength colDef of
                     None \<Rightarrow> True
                   | Some m \<Rightarrow> \<not> (m \<noteq> 0 \<and> length s > m))
              | _ \<Rightarrow> False)
         | T_BOOLEAN \<Rightarrow> (case v of VBool b \<Rightarrow> True | _ \<Rightarrow> False)
         | T_TIMESTAMP \<Rightarrow> (case v of VDate i t \<Rightarrow> True | VStr s \<Rightarrow> True | _ \<Rightarrow> False)))"

text \<open>
  The first loop of \<open>insert\<close>, over the positions of \<open>columns\<close> (the value count is
  the column count by then, so the pairs of \<open>zip columns values\<close> are the positions).
\<close>

fun buildRow :: "Table \<Rightarrow> (string \<times> RowValue) list \<Rightarrow> Row \<Rightarrow> Error + Row" where
  "buildRow table [] row = Inr row"
| "buildRow table ((c, v) # rest) row =
     (case find (\<lambda>d. name d = c) (columns (schema table)) of
        None \<Rightarrow> Inl (NoSuchColumn c)
      | Some colDef \<Rightarrow>
          if v \<noteq> VNull then
            (if \<not> validateType v colDef then Inl (InvalidType c)
             else buildRow table rest (setProp c v row))
          else if notNull colDef then Inl (CannotBeNull c)
          else buildRow table rest (setProp c v row))"

text \<open>The second loop: the columns of the schema that the row does not have yet.\<close>

fun fillMissing :: "ColumnDefinition list \<Rightarrow> Row \<Rightarrow> Error + Row" where
  "fillMissing [] row = Inr row"
| "fillMissing (col # cols) row =
     (if \<not> hasProp (name col) row then
        (if notNull col \<and> \<not> primaryKey col then Inl (CannotBeNull (name col))
         else fillMissing cols (setProp (name col) VNull row))
      else fillMissing cols row)"

text \<open>
  The condition of the auto-increment block. \<open>table.schema.primaryKey\<close> may be \<open>undefined\<close>: as a
  property name it is then the string \<open>undefined\<close>, and no column has it for a name.
  The condition is \<open>(pk && !(pk in row)) || row[pk] === null\<close>.
\<close>

definition pkProp :: "Table \<Rightarrow> string" where
  "pkProp table = (case schemaPrimaryKey (schema table) of None \<Rightarrow> ''undefined'' | Some k \<Rightarrow> k)"

definition keyMissing :: "Table \<Rightarrow> Row \<Rightarrow> bool" where
  "keyMissing table row =
     (((case schemaPrimaryKey (schema table) of None \<Rightarrow> False | Some k \<Rightarrow> k \<noteq> [])
        \<and> \<not> hasProp (pkProp table) row)
      \<or> getProp row (pkProp table) = VNull)"

definition pkIsInt :: "Table \<Rightarrow> bool" where
  "pkIsInt table =
     (case schemaPrimaryKey (schema table) of
        None \<Rightarrow> False
      | Some k \<Rightarrow>
          (case find (\<lambda>c. name c = k) (columns (schema table)) of
             None \<Rightarrow> False
           | Some pkCol \<Rightarrow> colType pkCol = T_INT))"

definition autoAssigns :: "Table \<Rightarrow> Row \<Rightarrow> bool" where
  "autoAssigns table row = (keyMissing table row \<and> pkIsInt table)"

text \<open>
  \<open>table.autoIncrement++\<close>. The counter is a double that holds an integer: it is 1 at
  creation and nothing else writes it. Up to \<open>2^53\<close> the sum with 1 is exact. From
  there to \<open>2^54\<close> the doubles are the even integers, the sum lies halfway between two
  of them and is rounded to the one whose last bit is 0; beyond, the sum is rounded back
  to the counter itself.
\<close>

definition counterLimit :: nat where
  "counterLimit = 2 ^ 53"

definition nextCounter :: "nat \<Rightarrow> nat" where
  "nextCounter c =
     (if c < counterLimit then c + 1
      else if c < 2 * counterLimit \<and> odd (c div 2) then c + 2
      else c)"

definition assignKey :: "Table \<Rightarrow> Row \<Rightarrow> Row \<times> Table" where
  "assignKey table row =
     (if autoAssigns table row
      then (setProp (pkProp table) (VNum (real (autoIncrement table))) row,
            table\<lparr>autoIncrement := nextCounter (autoIncrement table)\<rparr>)
      else (row, table))"

text \<open>
  The index loop of \<open>insert\<close>, over the indexes in their order: the error that ended
  it (if any) and the indexes as the loop leaves them.
\<close>

fun insertIndexes :: "Host \<Rightarrow> Row \<Rightarrow> nat \<Rightarrow> (string \<times> BTreeIndex) list
    \<Rightarrow> Error option \<times> (string \<times> BTreeIndex) list" where
  "insertIndexes h row rowIndex [] = (None, [])"
| "insertIndexes h row rowIndex ((colName, index) # rest) =
     (case insertIntoIndex h index (getProp row colName) rowIndex of
        None \<Rightarrow> (Some HostError, (colName, index) # rest)
      | Some (inserted, index') \<Rightarrow>
          if \<not> inserted then (Some (DuplicateValue colName), (colName, index') # rest)
          else
            (case insertIndexes h row rowIndex rest of
               (e, rest') \<Rightarrow> (e, (colName, index') # rest')))"

definition insertRow :: "Host \<Rightarrow> Table \<Rightarrow> string list \<Rightarrow> RowValue list \<Rightarrow> Table \<times> QueryResult" where
  "insertRow h table cols vals =
     (if length cols \<noteq> length vals then (table, failure ColumnCountMismatch)
      else
        (case buildRow table (zip cols vals) [] of
           Inl e \<Rightarrow> (table, failure e)
         | Inr row0 \<Rightarrow>
             (case fillMissing (columns (schema table)) row0 of
                Inl e \<Rightarrow> (table, failure e)
              | Inr row1 \<Rightarrow>
                  (case assignKey table row1 of
                     (row, table1) \<Rightarrow>
                       (case insertIndexes h row (length (rows table1)) (indexes table1) of
                          (Some e, ixs) \<Rightarrow> (table1\<lparr>indexes := ixs\<rparr>, failure e)
                        | (None, ixs) \<Rightarrow>
                            (table1\<lparr>indexes := ixs, rows := rows table1 @ [row]\<rparr>,
                             done_with RowInserted 1))))))"

definition insert :: "Host \<Rightarrow> RDBMSEngine \<Rightarrow> ParsedQuery \<Rightarrow> RDBMSEngine \<times> QueryResult" where
  "insert h eng parsed =
     (case map_of (tables eng) (tableName parsed) of
        None \<Rightarrow> (eng, failure (NoSuchTable (tableName parsed)))
      | Some table \<Rightarrow>
          (case (queryColumns parsed, queryValues parsed) of
             (Some (ColumnNames cols), Some vals) \<Rightarrow>
               (case insertRow h table cols vals of
                  (table', res) \<Rightarrow>
                    (eng\<lparr>tables := AList.update (tableName parsed) table' (tables eng)\<rparr>, res))
           | _ \<Rightarrow> (eng, failure HostError)))"


text \<open>
  \<open>update\<close>, for the row at position \<open>i\<close> that passed the filter: the uniqueness
  check over the entries of \<open>parsed.updates\<close>, then the index loop, then the cells.
\<close>

fun checkUnique :: "Host \<Rightarrow> Table \<Rightarrow> Row \<Rightarrow> nat \<Rightarrow> (string \<times> RowValue) list \<Rightarrow> Error option" where
  "checkUnique h table row i [] = None"
| "checkUnique h table row i ((colName, newValue) # rest) =
     (case map_of (indexes table) colName of
        None \<Rightarrow> checkUnique h table row i rest
      | Some index \<Rightarrow>
          if newValue \<noteq> getProp row colName then
            (case searchIndex h index newValue of
               None \<Rightarrow> Some HostError
             | Some existing \<Rightarrow>
                 if length existing > 0 \<and> i \<notin> set existing then Some (DuplicateValue colName)
                 else checkUnique h table row i rest)
          else checkUnique h table row i rest)"

fun updateIndexes :: "Host \<Rightarrow> Row \<Rightarrow> nat \<Rightarrow> (string \<times> RowValue) list
    \<Rightarrow> (string \<times> BTreeIndex) list \<Rightarrow> (string \<times> BTreeIndex) list option" where
  "updateIndexes h row i [] ixs = Some ixs"
| "updateIndexes h row i ((colName, newValue) # rest) ixs =
     (case map_of ixs colName of
        None \<Rightarrow> updateIndexes h row i rest ixs
      | Some index \<Rightarrow>
          (case removeFromIndex h index (getProp row colName) i of
             None \<Rightarrow> None
           | Some index1 \<Rightarrow>
               (case insertIntoIndex h index1 newValue i of
                  None \<Rightarrow> None
                | Some (inserted, index2) \<Rightarrow>
                    updateIndexes h row i rest (AList.update colName index2 ixs))))"

definition applyUpdates :: "(string \<times> RowValue) list \<Rightarrow> Row \<Rightarrow> Row" where
  "applyUpdates ups row = fold (\<lambda>(colName, newValue) r. setProp colName newValue r) ups row"

definition passes :: "Host \<Rightarrow> Condition list option \<Rightarrow> Row \<Rightarrow> Error + bool" where
  "passes h conds row = (case conds of None \<Rightarrow> Inr True | Some cs \<Rightarrow> evaluateConditions h row cs)"

text \<open>
  The loop of \<open>update\<close> over the positions still to visit, with the rows counted so
  far. A failure returns at once, and the table keeps what earlier positions wrote.
\<close>

fun updateLoop :: "Host \<Rightarrow> ParsedQuery \<Rightarrow> Table \<Rightarrow> nat list \<Rightarrow> nat \<Rightarrow> Table \<times> QueryResult" where
  "updateLoop h parsed table [] n = (table, done_with (RowsUpdated n) n)"
| "updateLoop h parsed table (i # todo) n =
     (let row = rows table ! i in
      case passes h (conditions parsed) row of
        Inl e \<Rightarrow> (table, failure e)
      | Inr False \<Rightarrow> updateLoop h parsed table todo n
      | Inr True \<Rightarrow>
          (case updates parsed of
             None \<Rightarrow> (table, failure HostError)
           | Some ups \<Rightarrow>
               (case checkUnique h table row i ups of
                  Some e \<Rightarrow> (table, failure e)
                | None \<Rightarrow>
                    (case updateIndexes h row i ups (indexes table) of
                       None \<Rightarrow> (table, failure HostError)
                     | Some ixs \<Rightarrow>
                         updateLoop h parsed
                           (table\<lparr>indexes := ixs, rows := (rows table)[i := applyUpdates ups row]\<rparr>)
                           todo (n + 1)))))"

definition update :: "Host \<Rightarrow> RDBMSEngine \<Rightarrow> ParsedQuery \<Rightarrow> RDBMSEngine \<times> QueryResult" where
  "update h eng parsed =
     (case map_of (tables eng) (tableName parsed) of
        None \<Rightarrow> (eng, failure (NoSuchTable (tableName parsed)))
      | Some table \<Rightarrow>
          (case updateLoop h parsed table [0 ..< length (rows table)] 0 of
             (table', res) \<Rightarrow>
               (eng\<lparr>tables := AList.update (tableName parsed) table' (tables eng)\<rparr>, res)))"

text \<open>\<open>delete\<close>: the positions to delete, in increasing order.\<close>

fun positionsToDelete :: "Host \<Rightarrow> Condition list option \<Rightarrow> Row list \<Rightarrow> nat \<Rightarrow> Error + nat list" where
  "positionsToDelete h conds [] i = Inr []"
| "positionsToDelete h conds (row # rest) i =
     (case passes h conds row of
        Inl e \<Rightarrow> Inl e
      | Inr hit \<Rightarrow>
          (case positionsToDelete h conds rest (i + 1) of
             Inl e \<Rightarrow> Inl e
           | Inr found \<Rightarrow> Inr (if hit then i # found else found)))"

fun removeFromIndexes :: "Host \<Rightarrow> Row \<Rightarrow> nat \<Rightarrow> (string \<times> BTreeIndex) list
    \<Rightarrow> (string \<times> BTreeIndex) list option" where
  "removeFromIndexes h row idx [] = Some []"
| "removeFromIndexes h row idx ((colName, index) # rest) =
     (case removeFromIndex h index (getProp row colName) idx of
        None \<Rightarrow> None
      | Some index' \<Rightarrow>
          (case removeFromIndexes h row idx rest of
             None \<Rightarrow> None
           | Some rest' \<Rightarrow> Some ((colName, index') # rest')))"

fun removeDeleted :: "Host \<Rightarrow> Row list \<Rightarrow> nat list \<Rightarrow> (string \<times> BTreeIndex) list
    \<Rightarrow> (string \<times> BTreeIndex) list option" where
  "removeDeleted h rs [] ixs = Some ixs"
| "removeDeleted h rs (idx # others) ixs =
     (case removeFromIndexes h (rs ! idx) idx ixs of
        None \<Rightarrow> None
      | Some ixs' \<Rightarrow> removeDeleted h rs others ixs')"

text \<open>The rows left once the positions are spliced out, from the last to the first.\<close>

definition spliceOut :: "Row list \<Rightarrow> nat list \<Rightarrow> Row list" where
  "spliceOut rs dels = map snd (filter (\<lambda>(i, row). i \<notin> set dels) (zip [0 ..< length rs] rs))"

fun rebuildIndexes :: "Host \<Rightarrow> Row list \<Rightarrow> (string \<times> BTreeIndex) list
    \<Rightarrow> (string \<times> BTreeIndex) list option" where
  "rebuildIndexes h rs [] = Some []"
| "rebuildIndexes h rs ((colName, index) # rest) =
     (case rebuildIndex h index (zip (map (\<lambda>row. getProp row colName) rs) [0 ..< length rs]) of
        None \<Rightarrow> None
      | Some index' \<Rightarrow>
          (case rebuildIndexes h rs rest of
             None \<Rightarrow> None
           | Some rest' \<Rightarrow> Some ((colName, index') # rest')))"

definition deleteRows :: "Host \<Rightarrow> Table \<Rightarrow> Condition list option \<Rightarrow> Table \<times> QueryResult" where
  "deleteRows h table conds =
     (case positionsToDelete h conds (rows table) 0 of
        Inl e \<Rightarrow> (table, failure e)
      | Inr dels \<Rightarrow>
          (case removeDeleted h (rows table) dels (indexes table) of
             None \<Rightarrow> (table, failure HostError)
           | Some ixs \<Rightarrow>
               (let kept = spliceOut (rows table) dels in
                case rebuildIndexes h kept ixs of
                  None \<Rightarrow> (table\<lparr>indexes := ixs, rows := kept\<rparr>, failure HostError)
                | Some ixs' \<Rightarrow>
                    (table\<lparr>indexes := ixs', rows := kept\<rparr>,
                     done_with (RowsDeleted (length dels)) (length dels)))))"

definition delete :: "Host \<Rightarrow> RDBMSEngine \<Rightarrow> ParsedQuery \<Rightarrow> RDBMSEngine \<times> QueryResult" where
  "delete h eng parsed =
     (case map_of (tables eng) (tableName parsed) of
        None \<Rightarrow> (eng, failure (NoSuchTable (tableName parsed)))
      | Some table \<Rightarrow>
          (case deleteRows h table (conditions parsed) of
             (table', res) \<Rightarrow>
               (eng\<lparr>tables := AList.update (tableName parsed) table' (tables eng)\<rparr>, res)))"

definition dropTable :: "RDBMSEngine \<Rightarrow> ParsedQuery \<Rightarrow> RDBMSEngine \<times> QueryResult" where
  "dropTable eng parsed =
     (if map_of (tables eng) (tableName parsed) = None
      then (eng, failure (NoSuchTable (tableName parsed)))
      else (eng\<lparr>tables := AList.delete (tableName parsed) (tables eng)\<rparr>,
            done_with (TableDropped (tableName parsed)) 0))"

text \<open>
  \<open>execute\<close> after \<open>parseSQL\<close>: the dispatch on the kind of the parsed query. The kinds
  are a closed type, so the \<open>default\<close> branch of the source has no counterpart.
\<close>

definition executeParsed :: "Host \<Rightarrow> RDBMSEngine \<Rightarrow> ParsedQuery \<Rightarrow> RDBMSEngine \<times> QueryResult" where
  "executeParsed h eng parsed =
     (case queryType parsed of
        CREATE \<Rightarrow> createTable eng parsed
      | INSERT \<Rightarrow> insert h eng parsed
      | SELECT \<Rightarrow> (eng, select h eng parsed)
      | UPDATE \<Rightarrow> update h eng parsed
      | DELETE \<Rightarrow> delete h eng parsed
      | DROP \<Rightarrow> dropTable eng parsed)"

definition newEngine :: RDBMSEngine where
  "newEngine = \<lparr>tables = []\<rparr>"


section \<open>Literals (parser.ts: parseValue)\<close>



definition upperChar :: "char \<Rightarrow> char" where
  "upperChar c =
     (if 97 \<le> (of_char c :: nat) \<and> (of_char c :: nat) \<le> 122
      then char_of ((of_char c :: nat) - 32) else c)"






section \<open>The patterns of the parser, as the host matches them\<close>



























section \<open>Conditions and SELECT in the parser (parser.ts: parseCondition, parseConditions, parseSelect)\<close>








section \<open>A host for closed examples\<close>

text \<open>
  \<open>sampleHost\<close> instantiates the host parameter in the examples that must name one.
  It reads the decimal integer literals as numbers and nothing else, writes integers in
  decimal, compares strings by their characters' codes, and knows the regular
  expressions that \<open>likePattern\<close> makes of letters, digits, blanks, \<open>%\<close> and \<open>_\<close>;
  it prints an inherited function as \<open>function name() { [native code] }\<close> and
  \<open>Object.prototype\<close> as \<open>[object Object]\<close>; it sorts by insertion with the
  comparator.
\<close>

definition isDigit :: "char \<Rightarrow> bool" where
  "isDigit c = (48 \<le> (of_char c :: nat) \<and> (of_char c :: nat) \<le> 57)"

definition digitsValue :: "string \<Rightarrow> nat" where
  "digitsValue s = foldl (\<lambda>acc c. 10 * acc + ((of_char c :: nat) - 48)) 0 s"

definition sampleNumber :: "string \<Rightarrow> real option" where
  "sampleNumber s =
     (if s \<noteq> [] \<and> list_all isDigit s then Some (real (digitsValue s))
      else if s \<noteq> [] \<and> hd s = CHR ''-'' \<and> tl s \<noteq> [] \<and> list_all isDigit (tl s)
      then Some (- real (digitsValue (tl s)))
      else None)"

fun natDigits :: "nat \<Rightarrow> nat \<Rightarrow> string" where
  "natDigits 0 n = []"
| "natDigits (Suc fuel) n =
     (if n < 10 then [char_of (48 + n)]
      else natDigits fuel (n div 10) @ [char_of (48 + n mod 10)])"

definition sampleNumString :: "real \<Rightarrow> string" where
  "sampleNumString x =
     (if x < 0 then CHR ''-'' # natDigits (Suc (nat \<lfloor>- x\<rfloor>)) (nat \<lfloor>- x\<rfloor>)
      else natDigits (Suc (nat \<lfloor>x\<rfloor>)) (nat \<lfloor>x\<rfloor>))"

definition sampleCompare :: "string \<Rightarrow> string \<Rightarrow> real" where
  "sampleCompare a b = (if strLess a b then -1 else if strLess b a then 1 else 0)"

fun sampleMatch :: "string \<Rightarrow> string \<Rightarrow> bool" where
  "sampleMatch [] s = (s = [])"
| "sampleMatch (c # p) s =
     (if c = CHR ''.'' \<and> p \<noteq> [] \<and> hd p = CHR ''*''
      then list_ex (\<lambda>n. sampleMatch (tl p) (drop n s)) [0 ..< Suc (length s)]
      else s \<noteq> [] \<and> (c = CHR ''.'' \<or> upperChar c = upperChar (hd s)) \<and> sampleMatch p (tl s))"

definition plainChar :: "char \<Rightarrow> bool" where
  "plainChar c =
     (isDigit c \<or> c = CHR '' '' \<or> c = CHR ''.'' \<or> c = CHR ''*''
      \<or> (65 \<le> (of_char (upperChar c) :: nat) \<and> (of_char (upperChar c) :: nat) \<le> 90))"

definition sampleRegexTest :: "string \<Rightarrow> string \<Rightarrow> bool option" where
  "sampleRegexTest src s =
     (if 2 \<le> length src \<and> hd src = CHR ''^'' \<and> last src = CHR ''$''
         \<and> list_all plainChar (butlast (tl src))
      then Some (sampleMatch (butlast (tl src)) s)
      else None)"

fun insertSorted :: "(Row \<Rightarrow> Row \<Rightarrow> real) \<Rightarrow> Row \<Rightarrow> Row list \<Rightarrow> Row list" where
  "insertSorted cmp x [] = [x]"
| "insertSorted cmp x (y # ys) = (if cmp x y \<le> 0 then x # y # ys else y # insertSorted cmp x ys)"

definition sampleSort :: "(Row \<Rightarrow> Row \<Rightarrow> real) \<Rightarrow> Row list \<Rightarrow> Row list" where
  "sampleSort cmp rs = foldr (insertSorted cmp) rs []"

definition sampleMemberString :: "string \<Rightarrow> string" where
  "sampleMemberString k =
     (if k = ''__proto__'' then ''[object Object]''
      else ''function '' @ (if k = ''constructor'' then ''Object'' else k) @ ''() { [native code] }'')"

definition sampleHost :: Host where
  "sampleHost =
     \<lparr>hostNumber = sampleNumber, hostNumString = sampleNumString,
      hostDateString = (\<lambda>i t. ''Date '' @ sampleNumString t),
      hostMemberString = sampleMemberString,
      localeCompare = sampleCompare, regexTest = sampleRegexTest, hostSort = sampleSort\<rparr>"


section \<open>Statements in sequence, and what the properties speak of\<close>

fun execAll :: "Host \<Rightarrow> RDBMSEngine \<Rightarrow> ParsedQuery list \<Rightarrow> RDBMSEngine" where
  "execAll h eng [] = eng"
| "execAll h eng (q # qs) = execAll h (fst (executeParsed h eng q)) qs"

text \<open>
  The kind of a value: what \<open>typeof\<close>, \<open>=== null\<close> and \<open>instanceof Date\<close> tell apart.
  The inherited members are functions, but for \<open>Object.prototype\<close> itself.
\<close>

datatype Kind = KUndefined | KNull | KNumber | KString | KBoolean | KDate | KFunction | KObject

fun kindOf :: "RowValue \<Rightarrow> Kind" where
  "kindOf VUndefined = KUndefined"
| "kindOf VNull = KNull"
| "kindOf (VNum n) = KNumber"
| "kindOf (VStr s) = KString"
| "kindOf (VBool b) = KBoolean"
| "kindOf (VDate i t) = KDate"
| "kindOf (VInherited k) = (if k = ''__proto__'' then KObject else KFunction)"

text \<open>
  The fold of the specification, \<open>result = result OP_i condition_i\<close>, over the pairs
  of a connective and the truth value of the condition it precedes.
\<close>

definition applyOp :: "LogicalOp \<Rightarrow> bool \<Rightarrow> bool \<Rightarrow> bool" where
  "applyOp op a b = (case op of AND \<Rightarrow> a \<and> b | OR \<Rightarrow> a \<or> b)"

fun leftToRight :: "bool \<Rightarrow> (LogicalOp \<times> bool) list \<Rightarrow> bool" where
  "leftToRight result [] = result"
| "leftToRight result ((op, b) # rest) = leftToRight (applyOp op result b) rest"

definition connective :: "Condition \<Rightarrow> LogicalOp" where
  "connective c = (case logicalOp c of None \<Rightarrow> AND | Some op \<Rightarrow> op)"

definition truth :: "Host \<Rightarrow> Row \<Rightarrow> Condition \<Rightarrow> bool" where
  "truth h row c = (evaluateCondition h row c = Inr True)"

definition noHostError :: "Host \<Rightarrow> Row \<Rightarrow> Condition list \<Rightarrow> bool" where
  "noHostError h row conds = list_all (\<lambda>c. \<not> isl (evaluateCondition h row c)) conds"

text \<open>Parsed queries and column definitions with every optional field absent.\<close>

definition query :: "QueryType \<Rightarrow> string \<Rightarrow> ParsedQuery" where
  "query k t =
     \<lparr>queryType = k, tableName = t, queryColumns = None, queryValues = None,
      conditions = None, updates = None, joins = None, orderBy = None, limit = None\<rparr>"

definition col :: "string \<Rightarrow> DataType \<Rightarrow> ColumnDefinition" where
  "col n t =
     \<lparr>name = n, colType = t, primaryKey = False, uniqueFlag = False, notNull = False,
      maxLength = None\<rparr>"

definition cond :: "string \<Rightarrow> Operator \<Rightarrow> RowValue \<Rightarrow> Condition" where
  "cond c op v = \<lparr>column = c, operator = op, condValue = v, logicalOp = None\<rparr>"

definition insertInto :: "string \<Rightarrow> string list \<Rightarrow> RowValue list \<Rightarrow> ParsedQuery" where
  "insertInto t cols vals =
     (query INSERT t)\<lparr>queryColumns := Some (ColumnNames cols), queryValues := Some vals\<rparr>"

definition createWith :: "string \<Rightarrow> ColumnDefinition list \<Rightarrow> ParsedQuery" where
  "createWith t cols = (query CREATE t)\<lparr>queryColumns := Some (ColumnDefs cols)\<rparr>"

definition selectAll :: "string \<Rightarrow> Condition list \<Rightarrow> ParsedQuery" where
  "selectAll t conds =
     (query SELECT t)\<lparr>queryColumns := Some (ColumnNames [''*'']), conditions := Some conds\<rparr>"


definition joinOn :: "JoinType \<Rightarrow> string \<Rightarrow> string \<Rightarrow> string \<Rightarrow> JoinClause" where
  "joinOn k t l r =
     \<lparr>joinType = k, joinTableName = t, joinAlias = None, leftColumn = l, rightColumn = r\<rparr>"

text \<open>The four ordering operators, and the number the host makes of a value.\<close>

definition orderingOp :: "Operator \<Rightarrow> bool" where
  "orderingOp op = (op = OpLt \<or> op = OpGt \<or> op = OpLe \<or> op = OpGe)"

definition numberOf :: "Host \<Rightarrow> RowValue \<Rightarrow> real option" where
  "numberOf h v = primNumber h (toPrimitive h v)"


text \<open>
  The values the host compares as texts: the strings, and the inherited members through
  the text the host prints them as. The order of two texts is that of their code units,
  the order of two numbers is that of the reals, and nothing is below, above or equal to
  \<open>NaN\<close>.
\<close>

definition isText :: "RowValue \<Rightarrow> bool" where
  "isText v = (case v of VStr s \<Rightarrow> True | VInherited k \<Rightarrow> True | _ \<Rightarrow> False)"

definition textOrder :: "Operator \<Rightarrow> string \<Rightarrow> string \<Rightarrow> bool" where
  "textOrder op s t =
     (case op of
        OpLt \<Rightarrow> strLess s t
      | OpGt \<Rightarrow> strLess t s
      | OpLe \<Rightarrow> \<not> strLess t s
      | OpGe \<Rightarrow> \<not> strLess s t
      | _ \<Rightarrow> False)"

definition numericOrder :: "Operator \<Rightarrow> real option \<Rightarrow> real option \<Rightarrow> bool" where
  "numericOrder op a b =
     (case a of
        None \<Rightarrow> False
      | Some m \<Rightarrow>
          (case b of
             None \<Rightarrow> False
           | Some n \<Rightarrow>
               (case op of
                  OpLt \<Rightarrow> m < n
                | OpGt \<Rightarrow> n < m
                | OpLe \<Rightarrow> m \<le> n
                | OpGe \<Rightarrow> n \<le> m
                | _ \<Rightarrow> False)))"

section \<open>The keys the counter hands out\<close>








text \<open>What the runs below look at: the rows, the index trees and the counter of a table.\<close>

definition rowsOf :: "RDBMSEngine \<Rightarrow> string \<Rightarrow> Row list option" where
  "rowsOf eng n = map_option rows (map_of (tables eng) n)"

definition rootsOf :: "RDBMSEngine \<Rightarrow> string \<Rightarrow> (string \<times> BTreeNode) list option" where
  "rootsOf eng n = map_option (\<lambda>t. map (\<lambda>(c, ix). (c, root ix)) (indexes t)) (map_of (tables eng) n)"

definition counterOf :: "RDBMSEngine \<Rightarrow> string \<Rightarrow> nat option" where
  "counterOf eng n = map_option autoIncrement (map_of (tables eng) n)"


section \<open>Example data\<close>

text \<open>
  \<open>WHERE k = 1 OR k = 2 AND f = 'B'\<close> as \<open>parseConditions\<close> gives it: each condition
  carries the connective that follows it in the text. The rows are those of the
  specification's scenario, in a table without indexes, and those of its short form.
\<close>

definition whereExample :: "Condition list" where
  "whereExample =
     [(cond ''k'' OpEq (VNum 1))\<lparr>logicalOp := Some OR\<rparr>,
      (cond ''k'' OpEq (VNum 2))\<lparr>logicalOp := Some AND\<rparr>,
      cond ''f'' OpEq (VStr ''B'')]"

definition rowsShort :: "Row list" where
  "rowsShort = [[(''k'', VNum 1)], [(''k'', VNum 2)], [(''k'', VNum 3), (''f'', VStr ''B'')]]"

definition tableExample :: "ParsedQuery list" where
  "tableExample =
     [createWith ''t'' [col ''k'' T_INT, col ''f'' T_VARCHAR],
      insertInto ''t'' [''k'', ''f''] [VNum 1, VStr ''A''],
      insertInto ''t'' [''k'', ''f''] [VNum 2, VStr ''A''],
      insertInto ''t'' [''k'', ''f''] [VNum 3, VStr ''B'']]"

text \<open>
  Two tables whose join columns hold \<open>NULL\<close>, and
  \<open>SELECT * FROM a JOIN b ON a.bid = b.bid\<close>.
\<close>

definition nullJoinTables :: "ParsedQuery list" where
  "nullJoinTables =
     [createWith ''a'' [col ''id'' T_INT, col ''bid'' T_INT],
      createWith ''b'' [col ''bid'' T_INT, col ''w'' T_INT],
      insertInto ''a'' [''id'', ''bid''] [VNum 1, VNull],
      insertInto ''b'' [''bid'', ''w''] [VNull, VNum 9]]"

definition nullJoinQuery :: ParsedQuery where
  "nullJoinQuery =
     (query SELECT ''a'')\<lparr>queryColumns := Some (ColumnNames [''*'']),
        joins := Some [joinOn INNER ''b'' ''a.bid'' ''b.bid'']\<rparr>"

text \<open>
  \<open>CREATE TABLE u (id INT PRIMARY KEY, n INT UNIQUE)\<close>, with one row and with two, and
  \<open>CREATE TABLE p (id INT PRIMARY KEY, name VARCHAR(3) NOT NULL)\<close> with one row.
\<close>

definition createKeyed :: ParsedQuery where
  "createKeyed =
     createWith ''u''
       [(col ''id'' T_INT)\<lparr>primaryKey := True, notNull := True\<rparr>,
        (col ''n'' T_INT)\<lparr>uniqueFlag := True\<rparr>]"

definition keyedOneRow :: "Host \<Rightarrow> RDBMSEngine" where
  "keyedOneRow h = execAll h newEngine [createKeyed, insertInto ''u'' [''n''] [VNum 7]]"

definition keyedTwoRows :: "Host \<Rightarrow> RDBMSEngine" where
  "keyedTwoRows h =
     execAll h newEngine
       [createKeyed, insertInto ''u'' [''n''] [VNum 10], insertInto ''u'' [''n''] [VNum 20]]"

definition createPeople :: ParsedQuery where
  "createPeople =
     createWith ''p''
       [(col ''id'' T_INT)\<lparr>primaryKey := True, notNull := True\<rparr>,
        (col ''name'' T_VARCHAR)\<lparr>notNull := True, maxLength := Some 3\<rparr>]"

definition onePerson :: "Host \<Rightarrow> RDBMSEngine" where
  "onePerson h = execAll h newEngine [createPeople, insertInto ''p'' [''name''] [VStr ''ab'']]"

definition updateSet :: "string \<Rightarrow> Row \<Rightarrow> Condition list option \<Rightarrow> ParsedQuery" where
  "updateSet t ups conds = (query UPDATE t)\<lparr>updates := Some ups, conditions := conds\<rparr>"

text \<open>\<open>WHERE id = 1 OR n = 20\<close>\<close>

definition whereEither :: "Condition list" where
  "whereEither = [(cond ''id'' OpEq (VNum 1))\<lparr>logicalOp := Some OR\<rparr>, cond ''n'' OpEq (VNum 20)]"

text \<open>
  \<open>a (id INT PRIMARY KEY, x INT)\<close> and \<open>b (aid INT, w INT)\<close>, one row each, and
  \<open>SELECT * FROM a JOIN b ON a.id = b.aid WHERE id = 1\<close>.
\<close>

definition joinedTables :: "Host \<Rightarrow> RDBMSEngine" where
  "joinedTables h =
     execAll h newEngine
       [createWith ''a'' [(col ''id'' T_INT)\<lparr>primaryKey := True, notNull := True\<rparr>, col ''x'' T_INT],
        createWith ''b'' [col ''aid'' T_INT, col ''w'' T_INT],
        insertInto ''a'' [''id'', ''x''] [VNum 1, VNum 5],
        insertInto ''b'' [''aid'', ''w''] [VNum 1, VNum 9]]"

definition joinWhereQuery :: ParsedQuery where
  "joinWhereQuery =
     (selectAll ''a'' [cond ''id'' OpEq (VNum 1)])\<lparr>joins := Some [joinOn INNER ''b'' ''a.id'' ''b.aid'']\<rparr>"






text \<open>
  \<open>CREATE TABLE k (id INT PRIMARY KEY, n INT)\<close>; four rows with the keys -30, -20, -10
  and 1 given in the statements; then \<open>UPDATE k SET id = -25 WHERE id = -20\<close>.
\<close>

definition createOnlyKey :: ParsedQuery where
  "createOnlyKey =
     createWith ''k'' [(col ''id'' T_INT)\<lparr>primaryKey := True, notNull := True\<rparr>, col ''n'' T_INT]"

definition givenKeys :: "ParsedQuery list" where
  "givenKeys =
     [createOnlyKey,
      insertInto ''k'' [''id'', ''n''] [VNum (- 30), VNum 1],
      insertInto ''k'' [''id'', ''n''] [VNum (- 20), VNum 2],
      insertInto ''k'' [''id'', ''n''] [VNum (- 10), VNum 3],
      insertInto ''k'' [''id'', ''n''] [VNum 1, VNum 4]]"

definition movedKey :: "Host \<Rightarrow> RDBMSEngine" where
  "movedKey h =
     execAll h newEngine
       (givenKeys @ [updateSet ''k'' [(''id'', VNum (- 25))] (Some [cond ''id'' OpEq (VNum (- 20))])])"


section \<open>Properties\<close>

lemmas run_defs = executeParsed_def createTable_def newEngine_def insert_def insertRow_def
  createBTreeIndex_def createNode_def failure_def done_with_def selected_def
  hasProp_def getProp_def setProp_def inherits_def protoIsNull_def protoSlot_def ownProps_def
  objectPrototypeNames_def nextCounter_def counterLimit_def validateType_def isInteger_def assignKey_def autoAssigns_def
  keyMissing_def pkIsInt_def pkProp_def insertIntoIndex_def insertAtRoot_def searchIndex_def
  scanDown_def keyAt_def spliceIn_def ORDER_def mid_def Let_def
  query_def col_def cond_def insertInto_def createWith_def selectAll_def joinOn_def

lemmas sample_defs = sampleHost_def sampleNumber_def isDigit_def digitsValue_def

subsection \<open>Joins\<close>

lemma rightLoop_filter:
  "rightLoop join leftRow rightRows =
     (list_ex (\<lambda>r. getProp leftRow (leftColumn join) = getProp r (lastSegment (rightColumn join))) rightRows,
      map (combineRows (joinTableName join) leftRow)
        (filter (\<lambda>r. getProp leftRow (leftColumn join) = getProp r (lastSegment (rightColumn join))) rightRows))"
  by (induction rightRows) (auto simp: Let_def)




text \<open>
  C5, as the code has it. For one left row, the rows the inner loop pushes are the
  combinations with exactly those right rows whose ON value is strictly equal to the
  left one (the same kind and the same value, nothing converted), in their order, and
  \<open>matched\<close> says whether there is one. Values of different kinds are never paired.
  \<open>NULL\<close> is strictly equal to \<open>NULL\<close>: a left row whose ON value is null is paired
  with a right row whose ON value is null.
\<close>

theorem join_pairs_equal_values:
  "rightLoop join leftRow rightRows =
     (list_ex (\<lambda>r. getProp leftRow (leftColumn join) = getProp r (lastSegment (rightColumn join))) rightRows,
      map (combineRows (joinTableName join) leftRow)
        (filter (\<lambda>r. getProp leftRow (leftColumn join) = getProp r (lastSegment (rightColumn join))) rightRows))
   \<and> (kindOf (getProp leftRow (leftColumn join)) \<noteq> kindOf (getProp rightRow (lastSegment (rightColumn join))) \<longrightarrow>
        rightLoop join leftRow [rightRow] = (False, []))
   \<and> (getProp leftRow (leftColumn join) = VNull \<and> getProp rightRow (lastSegment (rightColumn join)) = VNull \<longrightarrow>
        rightLoop join leftRow [rightRow] = (True, [combineRows (joinTableName join) leftRow rightRow]))"
proof (intro conjI impI)
  show "rightLoop join leftRow rightRows =
     (list_ex (\<lambda>r. getProp leftRow (leftColumn join) = getProp r (lastSegment (rightColumn join))) rightRows,
      map (combineRows (joinTableName join) leftRow)
        (filter (\<lambda>r. getProp leftRow (leftColumn join) = getProp r (lastSegment (rightColumn join))) rightRows))"
    by (rule rightLoop_filter)
next
  assume "kindOf (getProp leftRow (leftColumn join)) \<noteq> kindOf (getProp rightRow (lastSegment (rightColumn join)))"
  then show "rightLoop join leftRow [rightRow] = (False, [])"
    by (auto simp: Let_def)
next
  assume "getProp leftRow (leftColumn join) = VNull \<and> getProp rightRow (lastSegment (rightColumn join)) = VNull"
  then show "rightLoop join leftRow [rightRow] = (True, [combineRows (joinTableName join) leftRow rightRow])"
    by (simp add: Let_def)
qed


text \<open>
  C5 as the specification states it ("nulls never match, including null-to-null") fails:
  with \<open>a.bid\<close> and \<open>b.bid\<close> both \<open>NULL\<close>, the inner join emits the pair.
\<close>

theorem join_pairs_equal_values_counterexample:
  "select sampleHost (execAll sampleHost newEngine nullJoinTables) nullJoinQuery =
     selected [[(''a.id'', VNum 1), (''id'', VNum 1), (''a.bid'', VNull), (''bid'', VNull),
                (''b.bid'', VNull), (''b.w'', VNum 9), (''w'', VNum 9)]]"
  by (simp add: nullJoinTables_def nullJoinQuery_def joinOn_def run_defs select_def executeJoins_def
      joinLeftRow_def prefixedRow_def combineRows_def lastSegment_def)

theorem join_pairs_equal_values_witness:
  "rightLoop (joinOn INNER ''b'' ''a.bid'' ''b.bid'') [(''a.bid'', VNum 1)] [[(''bid'', VStr ''1'')]] = (False, [])
   \<and> rightLoop (joinOn INNER ''b'' ''a.bid'' ''b.bid'') [(''a.bid'', VNull)] [[(''bid'', VNull)]]
       = (True, [combineRows ''b'' [(''a.bid'', VNull)] [(''bid'', VNull)]])"
  using join_pairs_equal_values [where leftRow = "[(''a.bid'', VNum 1)]"
      and join = "joinOn INNER ''b'' ''a.bid'' ''b.bid''" and rightRow = "[(''bid'', VStr ''1'')]"]
    join_pairs_equal_values [where leftRow = "[(''a.bid'', VNull)]"
      and join = "joinOn INNER ''b'' ''a.bid'' ''b.bid''" and rightRow = "[(''bid'', VNull)]"]
  by (simp add: joinOn_def getProp_def lastSegment_def)


subsection \<open>Conditions\<close>

lemma evaluateRest_fold:
  "noHostError h row cs \<Longrightarrow>
   evaluateRest h row result prev cs =
     Inr (leftToRight result (zip (map connective (prev # cs)) (map (truth h row) cs)))"
proof (induction cs arbitrary: result prev)
  case Nil
  then show ?case by simp
next
  case (Cons c cs)
  from Cons.prems have c: "\<not> isl (evaluateCondition h row c)" and cs: "noHostError h row cs"
    by (simp_all add: noHostError_def)
  from c obtain b where b: "evaluateCondition h row c = Inr b"
    by (cases "evaluateCondition h row c") auto
  have t: "truth h row c = b"
    by (simp add: truth_def b)
  show ?case
    using Cons.IH [OF cs] b t
    by (cases "connective prev") (simp_all add: connective_def applyOp_def Let_def)
qed

lemma evaluateConditions_fold:
  assumes "noHostError h row (c # cs)"
  shows "evaluateConditions h row (c # cs) =
     Inr (leftToRight (truth h row c) (zip (map connective (c # cs)) (map (truth h row) cs)))"
proof -
  from assms have c: "\<not> isl (evaluateCondition h row c)" and cs: "noHostError h row cs"
    by (simp_all add: noHostError_def)
  from c obtain b where b: "evaluateCondition h row c = Inr b"
    by (cases "evaluateCondition h row c") auto
  have t: "truth h row c = b"
    by (simp add: truth_def b)
  show ?thesis
    using evaluateRest_fold [OF cs, of b c] b t by simp
qed

lemma no_precedence_rows:
  "filterByConditions h whereExample rowsShort = Inr []"
  by (simp add: whereExample_def rowsShort_def cond_def evaluateCondition_def getProp_def Let_def)

lemma no_precedence_select:
  "select h (execAll h newEngine tableExample) (selectAll ''t'' whereExample) = selected []"
  by (simp add: tableExample_def whereExample_def run_defs select_def filterRows_def evaluateCondition_def)


text \<open>
  C6. Where no condition raises a host error, the value of a flat sequence of conditions
  is the left-to-right fold \<open>result = result OP_i condition_i\<close>, each connective being
  the one written before its condition; so \<open>A OR B AND C\<close> is \<open>(A OR B) AND C\<close>. With
  the rows of the example, \<open>WHERE k = 1 OR k = 2 AND f = 'B'\<close> selects no row, through
  the filter and through \<open>select\<close>.
\<close>

theorem conditions_left_to_right:
  "(noHostError h row (c # cs) \<longrightarrow>
      evaluateConditions h row (c # cs) =
        Inr (leftToRight (truth h row c)
               (zip (map connective (c # cs)) (map (truth h row) cs))))
   \<and> (noHostError h row [a, b, c] \<and> logicalOp a = Some OR \<and> logicalOp b = Some AND \<longrightarrow>
      evaluateConditions h row [a, b, c] =
        Inr ((truth h row a \<or> truth h row b) \<and> truth h row c))
   \<and> filterByConditions h whereExample rowsShort = Inr []
   \<and> select h (execAll h newEngine tableExample) (selectAll ''t'' whereExample) = selected []"
proof (intro conjI impI)
  assume "noHostError h row (c # cs)"
  then show "evaluateConditions h row (c # cs) =
        Inr (leftToRight (truth h row c)
               (zip (map connective (c # cs)) (map (truth h row) cs)))"
    by (rule evaluateConditions_fold)
next
  assume a: "noHostError h row [a, b, c] \<and> logicalOp a = Some OR \<and> logicalOp b = Some AND"
  then have "noHostError h row (a # [b, c])" by simp
  from evaluateConditions_fold [OF this] a
  show "evaluateConditions h row [a, b, c] =
        Inr ((truth h row a \<or> truth h row b) \<and> truth h row c)"
    by (simp add: connective_def applyOp_def)
next
  show "filterByConditions h whereExample rowsShort = Inr []"
    by (rule no_precedence_rows)
next
  show "select h (execAll h newEngine tableExample) (selectAll ''t'' whereExample) = selected []"
    by (rule no_precedence_select)
qed


theorem conditions_left_to_right_witness:
  "noHostError sampleHost [(''k'', VNum 1), (''f'', VStr ''A'')] whereExample
   \<and> evaluateConditions sampleHost [(''k'', VNum 1), (''f'', VStr ''A'')] whereExample = Inr False"
  using conditions_left_to_right [where h = sampleHost
      and row = "[(''k'', VNum 1), (''f'', VStr ''A'')]"
      and a = "(cond ''k'' OpEq (VNum 1))\<lparr>logicalOp := Some OR\<rparr>"
      and b = "(cond ''k'' OpEq (VNum 2))\<lparr>logicalOp := Some AND\<rparr>"
      and c = "cond ''f'' OpEq (VStr ''B'')"]
  by (simp add: whereExample_def noHostError_def truth_def evaluateCondition_def cond_def
      getProp_def Let_def)

lemma toPrimitive_text: "isText v \<Longrightarrow> toPrimitive h v = PStr (jsString h v)"
  by (cases v) (simp_all add: isText_def)

lemma toPrimitive_other: "\<not> isText v \<Longrightarrow> toPrimitive h v \<noteq> PStr s"
  by (cases v) (simp_all add: isText_def)

lemma primLess_numbers:
  "\<not> (\<exists>s t. x = PStr s \<and> y = PStr t) \<Longrightarrow>
   primLess h x y = (case primNumber h x of None \<Rightarrow> False
      | Some m \<Rightarrow> (case primNumber h y of None \<Rightarrow> False | Some n \<Rightarrow> m < n))"
  by (cases x; cases y) (auto split: option.splits)

lemma primLessEq_numbers:
  "\<not> (\<exists>s t. x = PStr s \<and> y = PStr t) \<Longrightarrow>
   primLessEq h x y = (case primNumber h x of None \<Rightarrow> False
      | Some m \<Rightarrow> (case primNumber h y of None \<Rightarrow> False | Some n \<Rightarrow> m \<le> n))"
  by (cases x; cases y) (auto split: option.splits)

lemma ordering_texts:
  assumes "orderingOp (operator c)" and "getProp row (column c) \<noteq> VNull" and "condValue c \<noteq> VNull"
    and "isText (getProp row (column c))" and "isText (condValue c)"
  shows "evaluateCondition h row c =
     Inr (textOrder (operator c) (jsString h (getProp row (column c))) (jsString h (condValue c)))"
  using assms
  by (auto simp: evaluateCondition_def Let_def orderingOp_def textOrder_def jsLess_def jsLessEq_def
      toPrimitive_text)

lemma ordering_numbers:
  assumes "orderingOp (operator c)" and "getProp row (column c) \<noteq> VNull" and "condValue c \<noteq> VNull"
    and "\<not> (isText (getProp row (column c)) \<and> isText (condValue c))"
  shows "evaluateCondition h row c =
     Inr (numericOrder (operator c) (numberOf h (getProp row (column c))) (numberOf h (condValue c)))"
proof -
  from assms(4) toPrimitive_other
  have a: "\<not> (\<exists>s t. toPrimitive h (getProp row (column c)) = PStr s \<and> toPrimitive h (condValue c) = PStr t)"
    by blast
  then have b: "\<not> (\<exists>s t. toPrimitive h (condValue c) = PStr s \<and> toPrimitive h (getProp row (column c)) = PStr t)"
    by blast
  from assms(1,2,3) show ?thesis
    by (auto simp: evaluateCondition_def Let_def orderingOp_def numericOrder_def jsLess_def jsLessEq_def
        numberOf_def primLess_numbers [OF a] primLess_numbers [OF b]
        primLessEq_numbers [OF a] primLessEq_numbers [OF b] split: option.splits)
qed


text \<open>
  C7, as the code has it. \<open>=\<close> between values of different kinds is false. The ordering
  operators are false when either operand is null. Between two non-null operands there
  is no check of the kinds: two texts (strings, or members the row inherits, as the host
  prints them) are compared by their code units; in every other case both operands are
  converted to numbers and compared as numbers, which is false when either of them
  converts to \<open>NaN\<close>.
\<close>

theorem comparison_of_kinds:
  "(operator c = OpEq \<and> kindOf (getProp row (column c)) \<noteq> kindOf (condValue c) \<longrightarrow>
      evaluateCondition h row c = Inr False)
   \<and> (orderingOp (operator c) \<and> (getProp row (column c) = VNull \<or> condValue c = VNull) \<longrightarrow>
      evaluateCondition h row c = Inr False)
   \<and> (orderingOp (operator c) \<and> getProp row (column c) \<noteq> VNull \<and> condValue c \<noteq> VNull
        \<and> isText (getProp row (column c)) \<and> isText (condValue c) \<longrightarrow>
      evaluateCondition h row c =
        Inr (textOrder (operator c) (jsString h (getProp row (column c))) (jsString h (condValue c))))
   \<and> (orderingOp (operator c) \<and> getProp row (column c) \<noteq> VNull \<and> condValue c \<noteq> VNull
        \<and> \<not> (isText (getProp row (column c)) \<and> isText (condValue c)) \<longrightarrow>
      evaluateCondition h row c =
        Inr (numericOrder (operator c) (numberOf h (getProp row (column c)))
               (numberOf h (condValue c))))"
proof (intro conjI impI)
  assume "operator c = OpEq \<and> kindOf (getProp row (column c)) \<noteq> kindOf (condValue c)"
  then show "evaluateCondition h row c = Inr False"
    by (auto simp: evaluateCondition_def Let_def)
next
  assume "orderingOp (operator c) \<and> (getProp row (column c) = VNull \<or> condValue c = VNull)"
  then show "evaluateCondition h row c = Inr False"
    by (auto simp: evaluateCondition_def Let_def orderingOp_def)
next
  assume "orderingOp (operator c) \<and> getProp row (column c) \<noteq> VNull \<and> condValue c \<noteq> VNull
        \<and> isText (getProp row (column c)) \<and> isText (condValue c)"
  then show "evaluateCondition h row c =
        Inr (textOrder (operator c) (jsString h (getProp row (column c))) (jsString h (condValue c)))"
    using ordering_texts [of c row h] by blast
next
  assume "orderingOp (operator c) \<and> getProp row (column c) \<noteq> VNull \<and> condValue c \<noteq> VNull
        \<and> \<not> (isText (getProp row (column c)) \<and> isText (condValue c))"
  then show "evaluateCondition h row c =
        Inr (numericOrder (operator c) (numberOf h (getProp row (column c)))
               (numberOf h (condValue c)))"
    using ordering_numbers [of c row h] by blast
qed

theorem comparison_of_kinds_witness:
  "evaluateCondition sampleHost [(''x'', VNum 5)] (cond ''x'' OpEq (VStr ''5'')) = Inr False
   \<and> evaluateCondition sampleHost [(''x'', VNull)] (cond ''x'' OpLe (VNum 5)) = Inr False
   \<and> evaluateCondition sampleHost [(''x'', VStr ''abc'')] (cond ''x'' OpLt (VStr ''abd'')) = Inr True
   \<and> evaluateCondition sampleHost [(''x'', VNum 1)] (cond ''constructor'' OpLt (VStr ''zzz'')) = Inr True
   \<and> evaluateCondition sampleHost [(''x'', VNum 5)] (cond ''x'' OpLt (VStr ''abc'')) = Inr False
   \<and> evaluateCondition sampleHost [(''x'', VNum 5)] (cond ''x'' OpGe (VStr ''3'')) = Inr True"
  using comparison_of_kinds [of "cond ''x'' OpEq (VStr ''5'')" "[(''x'', VNum 5)]" sampleHost]
    comparison_of_kinds [of "cond ''x'' OpLe (VNum 5)" "[(''x'', VNull)]" sampleHost]
    comparison_of_kinds [of "cond ''x'' OpLt (VStr ''abd'')" "[(''x'', VStr ''abc'')]" sampleHost]
    comparison_of_kinds [of "cond ''constructor'' OpLt (VStr ''zzz'')" "[(''x'', VNum 1)]" sampleHost]
    comparison_of_kinds [of "cond ''x'' OpLt (VStr ''abc'')" "[(''x'', VNum 5)]" sampleHost]
    comparison_of_kinds [of "cond ''x'' OpGe (VStr ''3'')" "[(''x'', VNum 5)]" sampleHost]
  by (simp add: cond_def getProp_def inherits_def protoIsNull_def protoSlot_def
      objectPrototypeNames_def orderingOp_def numberOf_def isText_def textOrder_def
      numericOrder_def sample_defs sampleMemberString_def)


text \<open>
  C7 as stated fails for operands of different kinds that both convert to numbers: the
  integer 5 is below the string \<open>'10'\<close>, and \<open>TRUE\<close> is below 2.
\<close>

theorem comparison_of_kinds_counterexample:
  "kindOf (VNum 5) \<noteq> kindOf (VStr ''10'')
   \<and> evaluateCondition sampleHost [(''x'', VNum 5)] (cond ''x'' OpLt (VStr ''10'')) = Inr True
   \<and> kindOf (VBool True) \<noteq> kindOf (VNum 2)
   \<and> evaluateCondition sampleHost [(''flag'', VBool True)] (cond ''flag'' OpLt (VNum 2)) = Inr True"
  by (simp add: cond_def getProp_def evaluateCondition_def jsLess_def sample_defs)

subsection \<open>Literals\<close>






subsection \<open>Rejected and unchecked writes\<close>

lemmas write_defs = update_def passes_def applyUpdates_def removeFromIndex_def
  updateSet_def rowsOf_def rootsOf_def counterOf_def createKeyed_def createPeople_def




text \<open>
  C1, at a failing input. Table \<open>u\<close> holds the row \<open>(id 1, n 7)\<close>. A second
  \<open>INSERT INTO u (n) VALUES (7)\<close> is refused by the unique index on \<open>n\<close>; the row
  vector is as before, but the index on \<open>id\<close>, visited first, keeps the posting of key
  2 at position 1, where there is no row.
\<close>

theorem insert_rejected_not_rolled_back:
  "snd (executeParsed h (keyedOneRow h) (insertInto ''u'' [''n''] [VNum 7]))
     = failure (DuplicateValue ''n'')
   \<and> rowsOf (keyedOneRow h) ''u'' = Some [[(''n'', VNum 7), (''id'', VNum 1)]]
   \<and> rowsOf (fst (executeParsed h (keyedOneRow h) (insertInto ''u'' [''n''] [VNum 7]))) ''u''
     = Some [[(''n'', VNum 7), (''id'', VNum 1)]]
   \<and> rootsOf (keyedOneRow h) ''u''
     = Some [(''id'', BTreeNode [VNum 1] [[0]] [] True), (''n'', BTreeNode [VNum 7] [[0]] [] True)]
   \<and> rootsOf (fst (executeParsed h (keyedOneRow h) (insertInto ''u'' [''n''] [VNum 7]))) ''u''
     = Some [(''id'', BTreeNode [VNum 1, VNum 2] [[0], [1]] [] True),
             (''n'', BTreeNode [VNum 7] [[0]] [] True)]"
  by (simp add: keyedOneRow_def run_defs write_defs)


text \<open>
  C2, at a failing input. Column \<open>name\<close> of table \<open>p\<close> is \<open>VARCHAR(3) NOT NULL\<close>.
  \<open>UPDATE p SET name = NULL\<close> and \<open>UPDATE p SET name = 'abcdef'\<close> both complete and
  store the value; \<open>insert\<close> refuses the same two values.
\<close>

theorem update_skips_validation:
  "rowsOf (onePerson h) ''p'' = Some [[(''name'', VStr ''ab''), (''id'', VNum 1)]]
   \<and> snd (executeParsed h (onePerson h) (updateSet ''p'' [(''name'', VNull)] None))
     = done_with (RowsUpdated 1) 1
   \<and> rowsOf (fst (executeParsed h (onePerson h) (updateSet ''p'' [(''name'', VNull)] None))) ''p''
     = Some [[(''name'', VNull), (''id'', VNum 1)]]
   \<and> snd (executeParsed h (onePerson h) (updateSet ''p'' [(''name'', VStr ''abcdef'')] None))
     = done_with (RowsUpdated 1) 1
   \<and> rowsOf (fst (executeParsed h (onePerson h) (updateSet ''p'' [(''name'', VStr ''abcdef'')] None))) ''p''
     = Some [[(''name'', VStr ''abcdef''), (''id'', VNum 1)]]
   \<and> snd (executeParsed h (onePerson h) (insertInto ''p'' [''name''] [VNull]))
     = failure (CannotBeNull ''name'')
   \<and> snd (executeParsed h (onePerson h) (insertInto ''p'' [''name''] [VStr ''abcdef'']))
     = failure (InvalidType ''name'')"
  by (simp add: onePerson_def run_defs write_defs)


text \<open>
  C4, at a failing input. Table \<open>u\<close> holds \<open>(id 1, n 10)\<close> and \<open>(id 2, n 20)\<close>.
  \<open>UPDATE u SET n = 30\<close> fails at the second row with the duplicate of 30, after the
  first row and its index entry have been rewritten to 30.
\<close>

theorem update_partially_applied:
  "snd (executeParsed h (keyedTwoRows h) (updateSet ''u'' [(''n'', VNum 30)] None))
     = failure (DuplicateValue ''n'')
   \<and> rowsOf (keyedTwoRows h) ''u''
     = Some [[(''n'', VNum 10), (''id'', VNum 1)], [(''n'', VNum 20), (''id'', VNum 2)]]
   \<and> rowsOf (fst (executeParsed h (keyedTwoRows h) (updateSet ''u'' [(''n'', VNum 30)] None))) ''u''
     = Some [[(''n'', VNum 30), (''id'', VNum 1)], [(''n'', VNum 20), (''id'', VNum 2)]]
   \<and> rootsOf (keyedTwoRows h) ''u''
     = Some [(''id'', BTreeNode [VNum 1, VNum 2] [[0], [1]] [] True),
             (''n'', BTreeNode [VNum 10, VNum 20] [[0], [1]] [] True)]
   \<and> rootsOf (fst (executeParsed h (keyedTwoRows h) (updateSet ''u'' [(''n'', VNum 30)] None))) ''u''
     = Some [(''id'', BTreeNode [VNum 1, VNum 2] [[0], [1]] [] True),
             (''n'', BTreeNode [VNum 20, VNum 30] [[1], [0]] [] True)]"
  by (simp add: keyedTwoRows_def run_defs write_defs)


text \<open>
  C3, at two failing inputs. With \<open>WHERE id = 1 OR n = 20\<close> the general filter keeps
  both rows of \<open>u\<close>, and \<open>select\<close>, which seeds the rows from the index on \<open>id\<close>,
  returns the first only. With a join, \<open>WHERE id = 1\<close> replaces the joined rows by the
  row of the base table that the index addresses.
\<close>

theorem index_path_changes_result:
  "rowsOf (keyedTwoRows h) ''u''
     = Some [[(''n'', VNum 10), (''id'', VNum 1)], [(''n'', VNum 20), (''id'', VNum 2)]]
   \<and> filterByConditions h whereEither
        [[(''n'', VNum 10), (''id'', VNum 1)], [(''n'', VNum 20), (''id'', VNum 2)]]
     = Inr [[(''n'', VNum 10), (''id'', VNum 1)], [(''n'', VNum 20), (''id'', VNum 2)]]
   \<and> select h (keyedTwoRows h) (selectAll ''u'' whereEither)
     = selected [[(''n'', VNum 10), (''id'', VNum 1)]]
   \<and> select h (joinedTables h) (joinWhereQuery\<lparr>conditions := None\<rparr>)
     = selected [[(''a.id'', VNum 1), (''id'', VNum 1), (''a.x'', VNum 5), (''x'', VNum 5),
                  (''b.aid'', VNum 1), (''aid'', VNum 1), (''b.w'', VNum 9), (''w'', VNum 9)]]
   \<and> select h (joinedTables h) joinWhereQuery
     = selected [[(''id'', VNum 1), (''x'', VNum 5)]]"
  by (simp add: keyedTwoRows_def joinedTables_def joinWhereQuery_def whereEither_def run_defs write_defs
      select_def filterRows_def rowsAt_def evaluateCondition_def executeJoins_def joinLeftRow_def
      prefixedRow_def combineRows_def lastSegment_def)


subsection \<open>The auto-increment counter\<close>




































subsection \<open>A key given in the statement\<close>

text \<open>
  C10, at a failing input. Table \<open>k\<close> holds four rows whose keys -30, -20, -10 and 1
  were given in the statements, so the counter is still 1, and
  \<open>INSERT INTO k (n) VALUES (5)\<close> is refused with the duplicate of \<open>id\<close>. After
  \<open>UPDATE k SET id = -25 WHERE id = -20\<close> the root of the index on \<open>id\<close> has no key
  and two children, and a search never enters the second, which holds the key 1: the
  same insert takes key 1 from the counter and succeeds, and two rows have \<open>id\<close> 1.
\<close>

theorem duplicate_key_after_update:
  "rowsOf (execAll h newEngine givenKeys) ''k''
     = Some [[(''id'', VNum (- 30)), (''n'', VNum 1)], [(''id'', VNum (- 20)), (''n'', VNum 2)],
             [(''id'', VNum (- 10)), (''n'', VNum 3)], [(''id'', VNum 1), (''n'', VNum 4)]]
   \<and> counterOf (execAll h newEngine givenKeys) ''k'' = Some 1
   \<and> snd (executeParsed h (execAll h newEngine givenKeys) (insertInto ''k'' [''n''] [VNum 5]))
     = failure (DuplicateValue ''id'')
   \<and> rowsOf (movedKey h) ''k''
     = Some [[(''id'', VNum (- 30)), (''n'', VNum 1)], [(''id'', VNum (- 25)), (''n'', VNum 2)],
             [(''id'', VNum (- 10)), (''n'', VNum 3)], [(''id'', VNum 1), (''n'', VNum 4)]]
   \<and> counterOf (movedKey h) ''k'' = Some 1
   \<and> rootsOf (movedKey h) ''k''
     = Some [(''id'', BTreeNode [] []
                [BTreeNode [VNum (- 30), VNum (- 25)] [[0], [1]] [] True,
                 BTreeNode [VNum (- 10), VNum 1] [[2], [3]] [] True] False)]
   \<and> snd (executeParsed h (movedKey h) (insertInto ''k'' [''n''] [VNum 5]))
     = done_with RowInserted 1
   \<and> rowsOf (fst (executeParsed h (movedKey h) (insertInto ''k'' [''n''] [VNum 5]))) ''k''
     = Some [[(''id'', VNum (- 30)), (''n'', VNum 1)], [(''id'', VNum (- 25)), (''n'', VNum 2)],
             [(''id'', VNum (- 10)), (''n'', VNum 3)], [(''id'', VNum 1), (''n'', VNum 4)],
             [(''n'', VNum 5), (''id'', VNum 1)]]"
  by (simp add: movedKey_def givenKeys_def createOnlyKey_def run_defs write_defs evaluateCondition_def)

end
